theory Spec2Isabelle
  imports Complex_Main "HOL-Library.Word"
begin

section \<open>Numbers and complex values\<close>

text \<open>
  A JavaScript \<^verbatim>\<open>number\<close> is a finite value, one of the two infinities, or NaN.
  The validator and the level-of-detail controller only compare numbers and take
  minima and maxima, which IEEE-754 does without rounding, so every finite double is
  represented by the real it denotes (\<open>-0\<close> and \<open>+0\<close> both by \<open>0\<close>: no operation
  below tells them apart).
\<close>

datatype jsnum = Fin real | PosInf | NegInf | NaN

fun isNaN :: "jsnum \<Rightarrow> bool" where
  "isNaN NaN = True"
| "isNaN _ = False"

text \<open>\<^verbatim>\<open>a > b\<close>: false as soon as one side is NaN.\<close>

fun js_gt :: "jsnum \<Rightarrow> jsnum \<Rightarrow> bool" where
  "js_gt (Fin x) (Fin y) = (y < x)"
| "js_gt PosInf (Fin y) = True"
| "js_gt PosInf NegInf = True"
| "js_gt (Fin x) NegInf = True"
| "js_gt _ _ = False"

text \<open>\<^verbatim>\<open>a >= b\<close> and \<^verbatim>\<open>a <= b\<close>.\<close>

fun js_ge :: "jsnum \<Rightarrow> jsnum \<Rightarrow> bool" where
  "js_ge NaN _ = False"
| "js_ge _ NaN = False"
| "js_ge a b = (a = b \<or> js_gt a b)"

definition js_le :: "jsnum \<Rightarrow> jsnum \<Rightarrow> bool" where
  "js_le a b = js_ge b a"

text \<open>\<^verbatim>\<open>Math.min\<close> and \<^verbatim>\<open>Math.max\<close> of two arguments: NaN if either is NaN.\<close>

fun Math_min :: "jsnum \<Rightarrow> jsnum \<Rightarrow> jsnum" where
  "Math_min NaN _ = NaN"
| "Math_min _ NaN = NaN"
| "Math_min a b = (if js_gt a b then b else a)"

fun Math_max :: "jsnum \<Rightarrow> jsnum \<Rightarrow> jsnum" where
  "Math_max NaN _ = NaN"
| "Math_max _ NaN = NaN"
| "Math_max a b = (if js_gt b a then b else a)"

text \<open>
  \<^verbatim>\<open>interface Complex { real: number; imag: number }\<close>. The field names carry a
  suffix because \<open>real\<close> is the HOL conversion into the reals. The component type is
  a parameter: \<^typ>\<open>jsnum\<close> where NaN and the infinities matter (validation),
  \<^typ>\<open>real\<close> in the arithmetic kernels.
\<close>

record 'n Complex =
  real_v :: 'n
  imag_v :: 'n

section \<open>Parameter validation (fractal-presets-modular.ts)\<close>

text \<open>
  \<^verbatim>\<open>Partial<FractalParams>\<close>: every property may be absent (\<open>None\<close> is
  \<^verbatim>\<open>undefined\<close>). Enumerated properties are strings at run time, and the numeric
  ones any number, which is what the validator's own casts assume.
\<close>

record PartialFractalParams =
  fractalType_p :: "string option"
  escapeRadius_p :: "jsnum option"
  maxIterations_p :: "jsnum option"
  center_p :: "jsnum Complex option"
  zoom_p :: "jsnum option"
  juliaConstant_p :: "jsnum Complex option"
  colorPalette_p :: "string option"
  precision_p :: "string option"

text \<open>\<^verbatim>\<open>FractalParams\<close>: what the validator returns; only the Julia constant is optional.\<close>

record FractalParams =
  fractalType :: string
  escapeRadius :: jsnum
  maxIterations :: jsnum
  center :: "jsnum Complex"
  zoom :: jsnum
  juliaConstant :: "jsnum Complex option"
  colorPalette :: string
  precision :: string

text \<open>
  A \<^verbatim>\<open>FractalParams\<close> is a \<^verbatim>\<open>Partial<FractalParams>\<close> with every required property
  present: this is how the renderer hands validated parameters back to the validator.
\<close>

definition as_partial :: "FractalParams \<Rightarrow> PartialFractalParams" where
  "as_partial q =
     \<lparr> fractalType_p = Some (fractalType q),
       escapeRadius_p = Some (escapeRadius q),
       maxIterations_p = Some (maxIterations q),
       center_p = Some (center q),
       zoom_p = Some (zoom q),
       juliaConstant_p = juliaConstant q,
       colorPalette_p = Some (colorPalette q),
       precision_p = Some (precision q) \<rparr>"

text \<open>\<^verbatim>\<open>FractalLoader.getAvailableTypes()\<close>: the keys of the registry, in order.\<close>

definition getAvailableTypes :: "string list" where
  "getAvailableTypes =
     [''mandelbrot'', ''julia'', ''burning-ship'', ''lyapunov'', ''tricorn'', ''celtic'',
      ''newton'', ''phoenix'', ''lambda'', ''perpendicular'', ''heart'']"

text \<open>The \<^verbatim>\<open>defaults\<close> object of the validator.\<close>

definition defaults :: FractalParams where
  "defaults =
     \<lparr> fractalType = ''mandelbrot'',
       escapeRadius = Fin 2,
       maxIterations = Fin 100,
       center = \<lparr> real_v = Fin 0, imag_v = Fin 0 \<rparr>,
       zoom = Fin 4,
       juliaConstant = None,
       colorPalette = ''viridis'',
       precision = ''highp'' \<rparr>"

text \<open>
  The test the validator applies to a present \<^verbatim>\<open>center\<close> or \<^verbatim>\<open>juliaConstant\<close>: neither
  component is NaN (the \<^verbatim>\<open>typeof ... === 'number'\<close> tests hold for every value of the
  component type, and an object is truthy).
\<close>

definition valid_complex :: "jsnum Complex \<Rightarrow> bool" where
  "valid_complex c = (\<not> isNaN (real_v c) \<and> \<not> isNaN (imag_v c))"

text \<open>The test on a present \<^verbatim>\<open>zoom\<close>: greater than zero and not NaN.\<close>

definition valid_zoom :: "jsnum \<Rightarrow> bool" where
  "valid_zoom z = (js_gt z (Fin 0) \<and> \<not> isNaN z)"

text \<open>
  \<^verbatim>\<open>validateFractalParams\<close>, property by property in the order of the source. A string
  is truthy when it is not empty; \<^verbatim>\<open>includes\<close> and \<^verbatim>\<open>typeof ... === 'number'\<close> are false
  on an absent property.
\<close>

definition validateFractalParams :: "PartialFractalParams \<Rightarrow> FractalParams" where
  "validateFractalParams params =
     \<lparr> fractalType =
         (case fractalType_p params of
            Some t \<Rightarrow> if t \<noteq> [] \<and> t \<in> set getAvailableTypes then t else fractalType defaults
          | None \<Rightarrow> fractalType defaults),
       escapeRadius =
         (case escapeRadius_p params of
            Some r \<Rightarrow> if r \<in> set [Fin 2, Fin 4, Fin 8] then r else escapeRadius defaults
          | None \<Rightarrow> escapeRadius defaults),
       maxIterations =
         (case maxIterations_p params of
            Some n \<Rightarrow> if n \<in> set [Fin 50, Fin 100, Fin 500, Fin 1000] then n
                      else maxIterations defaults
          | None \<Rightarrow> maxIterations defaults),
       center =
         (case center_p params of
            Some c \<Rightarrow> if valid_complex c then c else center defaults
          | None \<Rightarrow> center defaults),
       zoom =
         (case zoom_p params of
            Some z \<Rightarrow> if valid_zoom z then Math_max (Fin (1 / 10)) (Math_min (Fin 1000000) z)
                      else zoom defaults
          | None \<Rightarrow> zoom defaults),
       juliaConstant =
         (case juliaConstant_p params of
            Some jc \<Rightarrow> if valid_complex jc then Some jc else None
          | None \<Rightarrow> None),
       colorPalette =
         (case colorPalette_p params of
            Some s \<Rightarrow> if s \<noteq> [] then s else colorPalette defaults
          | None \<Rightarrow> colorPalette defaults),
       precision =
         (case precision_p params of
            Some s \<Rightarrow> if s \<in> set [''lowp'', ''mediump'', ''highp''] then s
                      else precision defaults
          | None \<Rightarrow> precision defaults) \<rparr>"

section \<open>Coordinate mapping\<close>

text \<open>
  The arithmetic kernels below are written over the reals: \<open>+\<close>, \<open>-\<close>, \<open>*\<close>, \<open>/\<close> stand
  for the IEEE-754 operations without their rounding, overflow and NaN. The inputs at
  which this theory shows the code to depart from a claim are small integers and dyadic
  fractions, which binary floating point represents exactly, so there the two agree on
  every comparison and branch; the general theorems speak of the exact arithmetic.
\<close>

text \<open>\<^verbatim>\<open>interface ViewportState\<close> (the suffix tells its fields from those of the parameters).\<close>

record ViewportState =
  center_vp :: "real Complex"
  zoom_vp :: real
  width :: real
  height :: real
  aspectRatio :: real

text \<open>
  fractal-worker.ts, \<^verbatim>\<open>computeFractalRegion\<close>, lines 181 to 189: the complex coordinate
  of the sample at pixel position \<open>(pixelX, pixelY)\<close>.
\<close>

definition computeFractalRegion_coord :: "ViewportState \<Rightarrow> real \<Rightarrow> real \<Rightarrow> real Complex" where
  "computeFractalRegion_coord viewport pixelX pixelY =
     (let normalizedX = pixelX / width viewport;
          normalizedY = pixelY / height viewport;
          aspectRatio' = width viewport / height viewport;
          complexX = (normalizedX - 1 / 2) * aspectRatio' * zoom_vp viewport
                       + real_v (center_vp viewport);
          complexY = (normalizedY - 1 / 2) * zoom_vp viewport + imag_v (center_vp viewport)
      in \<lparr> real_v = complexX, imag_v = complexY \<rparr>)"

text \<open>
  shaders.ts, \<^verbatim>\<open>main\<close> of the Mandelbrot fragment shader (the other fragment shaders
  use the same line): \<^verbatim>\<open>c = (uv - 0.5) * aspect / u_zoom + u_center\<close> with
  \<^verbatim>\<open>aspect = vec2(u_resolution.x / u_resolution.y, 1.0)\<close>, componentwise.
\<close>

definition shader_main_c ::
  "real \<times> real \<Rightarrow> real Complex \<Rightarrow> real \<Rightarrow> real \<times> real \<Rightarrow> real Complex" where
  "shader_main_c u_resolution u_center u_zoom uv =
     (let aspect = (fst u_resolution / snd u_resolution, 1)
      in \<lparr> real_v = (fst uv - 1 / 2) * fst aspect / u_zoom + real_v u_center,
           imag_v = (snd uv - 1 / 2) * snd aspect / u_zoom + imag_v u_center \<rparr>)"

text \<open>
  fractal-renderer.ts, \<^verbatim>\<open>updateUniforms\<close>: the uniforms come from the viewport
  (\<^verbatim>\<open>u_resolution\<close> from width and height, \<^verbatim>\<open>u_center\<close>, \<^verbatim>\<open>u_zoom\<close>). The GPU path at
  the normalised position \<open>uv\<close>:
\<close>

definition gpu_coord :: "ViewportState \<Rightarrow> real \<times> real \<Rightarrow> real Complex" where
  "gpu_coord viewport uv =
     shader_main_c (width viewport, height viewport) (center_vp viewport) (zoom_vp viewport) uv"

text \<open>
  fractal-renderer.ts, \<^verbatim>\<open>FractalRenderer.zoom\<close>, lines 455 to 461 (and again 467, 468
  after the zoom changed): the coordinate under the pixel \<open>(centerX, centerY)\<close>; the aspect
  ratio is the stored field of the viewport.
\<close>

definition renderer_pixelToComplex :: "ViewportState \<Rightarrow> real \<Rightarrow> real \<Rightarrow> real Complex" where
  "renderer_pixelToComplex viewport centerX centerY =
     (let normalizedX = centerX / width viewport;
          normalizedY = centerY / height viewport;
          aspectRatio' = aspectRatio viewport
      in \<lparr> real_v = (normalizedX - 1 / 2) * aspectRatio' * zoom_vp viewport
                        + real_v (center_vp viewport),
           imag_v = (normalizedY - 1 / 2) * zoom_vp viewport + imag_v (center_vp viewport) \<rparr>)"

text \<open>
  The part of the renderer that \<^verbatim>\<open>zoom\<close> reads and writes: the viewport, and the zoom
  and centre of the current parameters, which it overwrites with the viewport's.
\<close>

record FractalRenderer =
  viewport :: ViewportState
  currentParams_zoom :: real
  currentParams_center :: "real Complex"

text \<open>
  \<^verbatim>\<open>FractalRenderer.zoom(factor, centerX?, centerY?)\<close>; an absent argument is \<open>None\<close>.
\<close>

definition FractalRenderer_zoom ::
  "FractalRenderer \<Rightarrow> real \<Rightarrow> real option \<Rightarrow> real option \<Rightarrow> FractalRenderer" where
  "FractalRenderer_zoom this factor centerX centerY =
     (let vp = viewport this;
          vp' =
            (case (centerX, centerY) of
               (Some cx, Some cy) \<Rightarrow>
                 (let before = renderer_pixelToComplex vp cx cy;
                      zoomed = vp\<lparr> zoom_vp := zoom_vp vp / factor \<rparr>;
                      after = renderer_pixelToComplex zoomed cx cy
                  in zoomed\<lparr> center_vp :=
                       \<lparr> real_v = real_v (center_vp zoomed) + (real_v before - real_v after),
                         imag_v = imag_v (center_vp zoomed) + (imag_v before - imag_v after) \<rparr> \<rparr>)
             | _ \<Rightarrow> vp\<lparr> zoom_vp := zoom_vp vp / factor \<rparr>)
      in this\<lparr> viewport := vp',
               currentParams_zoom := zoom_vp vp',
               currentParams_center := center_vp vp' \<rparr>)"

section \<open>The background worker (fractal-worker.ts)\<close>

text \<open>\<^verbatim>\<open>class ComplexMath\<close>.\<close>

definition ComplexMath_add :: "real Complex \<Rightarrow> real Complex \<Rightarrow> real Complex" where
  "ComplexMath_add a b = \<lparr> real_v = real_v a + real_v b, imag_v = imag_v a + imag_v b \<rparr>"

definition ComplexMath_square :: "real Complex \<Rightarrow> real Complex" where
  "ComplexMath_square z =
     \<lparr> real_v = real_v z * real_v z - imag_v z * imag_v z, imag_v = 2 * real_v z * imag_v z \<rparr>"

definition ComplexMath_magnitudeSquared :: "real Complex \<Rightarrow> real" where
  "ComplexMath_magnitudeSquared z = real_v z * real_v z + imag_v z * imag_v z"

definition ComplexMath_abs :: "real Complex \<Rightarrow> real Complex" where
  "ComplexMath_abs z = \<lparr> real_v = \<bar>real_v z\<bar>, imag_v = \<bar>imag_v z\<bar> \<rparr>"

text \<open>
  The \<^verbatim>\<open>while\<close> loop of \<^verbatim>\<open>FractalCompute.mandelbrot\<close>. It leaves by the \<^verbatim>\<open>return\<close> inside
  with the iteration counter and the squared magnitude that passed the escape test
  (\<open>Some\<close>), or by its condition (\<open>None\<close>).
\<close>

function mandelbrot_loop ::
  "real Complex \<Rightarrow> nat \<Rightarrow> real \<Rightarrow> real Complex \<Rightarrow> nat \<Rightarrow> (nat \<times> real) option" where
  "mandelbrot_loop c maxIter escapeRadiusSquared z iteration =
     (if iteration < maxIter
      then (if ComplexMath_magnitudeSquared z > escapeRadiusSquared
            then Some (iteration, ComplexMath_magnitudeSquared z)
            else mandelbrot_loop c maxIter escapeRadiusSquared
                   (ComplexMath_add (ComplexMath_square z) c) (iteration + 1))
      else None)"
  by pat_completeness auto
termination
  by (relation "measure (\<lambda>(c, maxIter, r, z, iteration). maxIter - iteration)") auto

declare mandelbrot_loop.simps [simp del]

text \<open>
  The value returned at an escape: \<^verbatim>\<open>iteration + 1 - Math.log2(Math.log2(zMagSquared) * 0.5)\<close>.
\<close>

definition smoothIteration :: "nat \<Rightarrow> real \<Rightarrow> real" where
  "smoothIteration iteration zMagSquared =
     real iteration + 1 - log 2 (log 2 zMagSquared * (1 / 2))"

definition FractalCompute_mandelbrot :: "real Complex \<Rightarrow> nat \<Rightarrow> real \<Rightarrow> real" where
  "FractalCompute_mandelbrot c maxIter escRadius =
     (case mandelbrot_loop c maxIter (escRadius * escRadius) \<lparr> real_v = 0, imag_v = 0 \<rparr> 0 of
        Some (iteration, zMagSquared) \<Rightarrow> smoothIteration iteration zMagSquared
      | None \<Rightarrow> real maxIter)"

text \<open>\<^verbatim>\<open>FractalCompute.julia\<close>: the same loop, started at the sample.\<close>

function julia_loop ::
  "real Complex \<Rightarrow> nat \<Rightarrow> real \<Rightarrow> real Complex \<Rightarrow> nat \<Rightarrow> (nat \<times> real) option" where
  "julia_loop c maxIter escapeRadiusSquared z iteration =
     (if iteration < maxIter
      then (if ComplexMath_magnitudeSquared z > escapeRadiusSquared
            then Some (iteration, ComplexMath_magnitudeSquared z)
            else julia_loop c maxIter escapeRadiusSquared
                   (ComplexMath_add (ComplexMath_square z) c) (iteration + 1))
      else None)"
  by pat_completeness auto
termination
  by (relation "measure (\<lambda>(c, maxIter, r, z, iteration). maxIter - iteration)") auto

declare julia_loop.simps [simp del]

definition FractalCompute_julia :: "real Complex \<Rightarrow> real Complex \<Rightarrow> nat \<Rightarrow> real \<Rightarrow> real" where
  "FractalCompute_julia z c maxIter escRadius =
     (case julia_loop c maxIter (escRadius * escRadius) z 0 of
        Some (iteration, zMagSquared) \<Rightarrow> smoothIteration iteration zMagSquared
      | None \<Rightarrow> real maxIter)"

text \<open>\<^verbatim>\<open>FractalCompute.burningShip\<close>: the absolute values are taken before squaring.\<close>

function burningShip_loop ::
  "real Complex \<Rightarrow> nat \<Rightarrow> real \<Rightarrow> real Complex \<Rightarrow> nat \<Rightarrow> (nat \<times> real) option" where
  "burningShip_loop c maxIter escapeRadiusSquared z iteration =
     (if iteration < maxIter
      then (if ComplexMath_magnitudeSquared z > escapeRadiusSquared
            then Some (iteration, ComplexMath_magnitudeSquared z)
            else burningShip_loop c maxIter escapeRadiusSquared
                   (ComplexMath_add (ComplexMath_square (ComplexMath_abs z)) c) (iteration + 1))
      else None)"
  by pat_completeness auto
termination
  by (relation "measure (\<lambda>(c, maxIter, r, z, iteration). maxIter - iteration)") auto

declare burningShip_loop.simps [simp del]

definition FractalCompute_burningShip :: "real Complex \<Rightarrow> nat \<Rightarrow> real \<Rightarrow> real" where
  "FractalCompute_burningShip c maxIter escRadius =
     (case burningShip_loop c maxIter (escRadius * escRadius) \<lparr> real_v = 0, imag_v = 0 \<rparr> 0 of
        Some (iteration, zMagSquared) \<Rightarrow> smoothIteration iteration zMagSquared
      | None \<Rightarrow> real maxIter)"

text \<open>
  Division of two finite numbers as JavaScript does it: a zero divisor gives NaN or an
  infinity, never an exception.
\<close>

definition js_div :: "real \<Rightarrow> real \<Rightarrow> jsnum" where
  "js_div x y =
     (if y = 0 then (if x = 0 then NaN else if 0 < x then PosInf else NegInf)
      else Fin (x / y))"

text \<open>
  The \<^verbatim>\<open>for\<close> loop of \<^verbatim>\<open>FractalCompute.lyapunov\<close> with its two early returns; after the
  loop the sum is divided by \<^verbatim>\<open>maxIterations\<close>.
\<close>

function lyapunov_loop :: "real \<Rightarrow> real \<Rightarrow> nat \<Rightarrow> nat \<Rightarrow> real \<Rightarrow> real \<Rightarrow> jsnum" where
  "lyapunov_loop a b maxIter i x lyapunovSum =
     (if i < maxIter
      then (let r = (if i mod 2 = 0 then a else b) in
            if x \<le> 0 \<or> x \<ge> 1 then Fin (- 10)
            else (let derivative = r * (1 - 2 * x) in
                  if \<bar>derivative\<bar> < 1 / 10 ^ 10 then Fin (- 10)
                  else lyapunov_loop a b maxIter (i + 1) (r * x * (1 - x))
                         (lyapunovSum + ln \<bar>derivative\<bar>)))
      else js_div lyapunovSum (real maxIter))"
  by pat_completeness auto
termination
  by (relation "measure (\<lambda>(a, b, maxIter, i, x, s). maxIter - i)") auto

declare lyapunov_loop.simps [simp del]

definition FractalCompute_lyapunov :: "real Complex \<Rightarrow> nat \<Rightarrow> jsnum" where
  "FractalCompute_lyapunov coord maxIter =
     (let a = real_v coord; b = imag_v coord in
      if a \<le> 0 \<or> a \<ge> 4 \<or> b \<le> 0 \<or> b \<ge> 4 then Fin 0
      else lyapunov_loop a b maxIter 0 (1 / 2) 0)"

text \<open>
  The \<^verbatim>\<open>switch (fractalType)\<close> of \<^verbatim>\<open>computeFractalRegion\<close>: the value one sample adds to
  \<^verbatim>\<open>totalIteration\<close>. The first argument is the fractal type the function has taken from
  the preset or the parameters; the next three are the properties of \<^verbatim>\<open>params\<close> that the
  switch reads.
\<close>

definition computeFractalRegion_sample ::
  "string \<Rightarrow> real Complex option \<Rightarrow> nat \<Rightarrow> real \<Rightarrow> real Complex \<Rightarrow> jsnum" where
  "computeFractalRegion_sample fType juliaConst maxIter escRadius coord =
     (if fType = ''mandelbrot'' then Fin (FractalCompute_mandelbrot coord maxIter escRadius)
      else if fType = ''julia'' then
        (case juliaConst of
           None \<Rightarrow> Fin 0
         | Some jc \<Rightarrow> Fin (FractalCompute_julia coord jc maxIter escRadius))
      else if fType = ''burning-ship'' then
        Fin (FractalCompute_burningShip \<lparr> real_v = real_v coord, imag_v = - imag_v coord \<rparr>
               maxIter escRadius)
      else if fType = ''lyapunov'' then
        FractalCompute_lyapunov
          \<lparr> real_v = (real_v coord + 2) * 2, imag_v = (imag_v coord + 2) * 2 \<rparr> maxIter
      else Fin 0)"

text \<open>
  fractal-renderer.ts, \<^verbatim>\<open>updateUniforms\<close>: the value uploaded as \<^verbatim>\<open>u_juliaConstant\<close>.
\<close>

definition updateUniforms_juliaConstant :: "string \<Rightarrow> real Complex option \<Rightarrow> real Complex" where
  "updateUniforms_juliaConstant fType juliaConst =
     (if fType = ''julia'' then
        (case juliaConst of
           Some jc \<Rightarrow> jc
         | None \<Rightarrow> \<lparr> real_v = - 7269 / 10000, imag_v = 1889 / 10000 \<rparr>)
      else (case juliaConst of
              Some jc \<Rightarrow> jc
            | None \<Rightarrow> \<lparr> real_v = 0, imag_v = 0 \<rparr>))"

text \<open>
  The step formula of the registry's \<^verbatim>\<open>JuliaFractal\<close> (fractals/julia.ts):
  \<^verbatim>\<open>const constant = c || { real: -0.7269, imag: 0.1889 }\<close>, then \<open>z\<^sup>2 + constant\<close>.
\<close>

definition JuliaFractal_formula :: "real Complex \<Rightarrow> real Complex option \<Rightarrow> real Complex" where
  "JuliaFractal_formula z c =
     (let constant = (case c of Some k \<Rightarrow> k
                      | None \<Rightarrow> \<lparr> real_v = - 7269 / 10000, imag_v = 1889 / 10000 \<rparr>)
      in \<lparr> real_v = real_v z * real_v z - imag_v z * imag_v z + real_v constant,
           imag_v = 2 * real_v z * imag_v z + imag_v constant \<rparr>)"

section \<open>Level of detail (PerformanceMonitor)\<close>

text \<open>\<^verbatim>\<open>interface PerformanceMetrics\<close>.\<close>

record PerformanceMetrics =
  fps :: jsnum
  frameTime :: jsnum
  gpuMemoryUsage :: jsnum
  renderLatency :: jsnum
  lastRenderTime :: jsnum

text \<open>One entry of \<^verbatim>\<open>LODConfig.qualitySettings\<close>.\<close>

record QualitySetting =
  maxIterations_q :: nat
  samplesPerPixel_q :: nat
  precision_q :: string

text \<open>\<^verbatim>\<open>interface LODConfig\<close>.\<close>

record LODConfig =
  enabled :: bool
  zoomThresholds :: "jsnum list"
  iterationReductions :: "jsnum list"
  qualitySettings :: "QualitySetting list"

text \<open>
  The fields of \<^verbatim>\<open>PerformanceMonitor\<close> that \<^verbatim>\<open>getRecommendedLOD\<close> reads. Both can take any
  value: the metrics are recomputed every frame and \<^verbatim>\<open>configureLOD\<close> replaces the
  configuration.
\<close>

record PerformanceMonitor =
  metrics :: PerformanceMetrics
  lodConfig :: LODConfig

text \<open>The configuration a new monitor starts with.\<close>

definition initial_lodConfig :: LODConfig where
  "initial_lodConfig =
     \<lparr> enabled = True,
       zoomThresholds = [Fin 1, Fin 10, Fin 100, Fin 1000],
       iterationReductions = [Fin 1, Fin (8 / 10), Fin (6 / 10), Fin (4 / 10)],
       qualitySettings =
         [\<lparr> maxIterations_q = 1000, samplesPerPixel_q = 4, precision_q = ''highp'' \<rparr>,
          \<lparr> maxIterations_q = 500, samplesPerPixel_q = 2, precision_q = ''highp'' \<rparr>,
          \<lparr> maxIterations_q = 100, samplesPerPixel_q = 1, precision_q = ''mediump'' \<rparr>,
          \<lparr> maxIterations_q = 50, samplesPerPixel_q = 1, precision_q = ''lowp'' \<rparr>] \<rparr>"

definition isPerformanceAcceptable :: "PerformanceMonitor \<Rightarrow> bool" where
  "isPerformanceAcceptable this =
     (js_ge (fps (metrics this)) (Fin 58) \<and> js_le (frameTime (metrics this)) (Fin 17))"

text \<open>
  The first loop of \<^verbatim>\<open>getRecommendedLOD\<close>: \<^verbatim>\<open>lodLevel = i + 1\<close> for every threshold below
  the zoom, in index order, starting from \<open>0\<close>. Levels are integers because
  \<^verbatim>\<open>qualitySettings.length - 1\<close> is \<open>-1\<close> for an empty list.
\<close>

definition baseLOD :: "jsnum list \<Rightarrow> jsnum \<Rightarrow> int" where
  "baseLOD thresholds z =
     fold (\<lambda>i lodLevel. if js_gt z (thresholds ! i) then int i + 1 else lodLevel)
       [0..<length thresholds] 0"

text \<open>The performance adjustment: the \<^verbatim>\<open>if ... else if\<close> after the loop.\<close>

definition adjustLOD :: "PerformanceMonitor \<Rightarrow> int \<Rightarrow> int" where
  "adjustLOD this lodLevel =
     (if \<not> isPerformanceAcceptable this
         \<and> lodLevel < int (length (qualitySettings (lodConfig this))) - 1
      then lodLevel + 1
      else if js_gt (fps (metrics this)) (Fin 65) \<and> lodLevel > 0 then lodLevel - 1
      else lodLevel)"

definition getRecommendedLOD :: "PerformanceMonitor \<Rightarrow> jsnum \<Rightarrow> int" where
  "getRecommendedLOD this z =
     min (adjustLOD this (baseLOD (zoomThresholds (lodConfig this)) z))
         (int (length (qualitySettings (lodConfig this))) - 1)"

section \<open>The Newton step (fractals/newton.ts)\<close>

text \<open>
  The squared magnitude of the denominator \<open>3z\<^sup>2\<close>, as the formula computes it
  (\<^verbatim>\<open>denomMagnitude\<close>).
\<close>

definition denomMagnitude :: "real Complex \<Rightarrow> real" where
  "denomMagnitude z =
     (let z2Real = real_v z * real_v z - imag_v z * imag_v z;
          z2Imag = 2 * real_v z * imag_v z;
          denominatorReal = 3 * z2Real;
          denominatorImag = 3 * z2Imag
      in denominatorReal * denominatorReal + denominatorImag * denominatorImag)"

text \<open>
  The divisor of the two divisions of the formula, \<open>None\<close> when it returns before
  dividing.
\<close>

definition newton_divisor :: "real Complex \<Rightarrow> real option" where
  "newton_divisor z = (if denomMagnitude z < 1 / 10 ^ 10 then None else Some (denomMagnitude z))"

text \<open>\<^verbatim>\<open>NewtonFractal.definition.formula\<close>.\<close>

definition newton_formula :: "real Complex \<Rightarrow> real Complex" where
  "newton_formula z =
     (let z3Real = real_v z * real_v z * real_v z - 3 * real_v z * imag_v z * imag_v z;
          z3Imag = 3 * real_v z * real_v z * imag_v z - imag_v z * imag_v z * imag_v z;
          numeratorReal = z3Real - 1;
          numeratorImag = z3Imag;
          z2Real = real_v z * real_v z - imag_v z * imag_v z;
          z2Imag = 2 * real_v z * imag_v z;
          denominatorReal = 3 * z2Real;
          denominatorImag = 3 * z2Imag
      in case newton_divisor z of
           None \<Rightarrow> z
         | Some d \<Rightarrow>
             (let divisionReal =
                    (numeratorReal * denominatorReal + numeratorImag * denominatorImag) / d;
                  divisionImag =
                    (numeratorImag * denominatorReal - numeratorReal * denominatorImag) / d
              in \<lparr> real_v = real_v z - divisionReal, imag_v = imag_v z - divisionImag \<rparr>))"

section \<open>Palette gradients (color-palettes.ts)\<close>

text \<open>
  The value of a character that \<^verbatim>\<open>[a-f\d]\<close> matches under the \<^verbatim>\<open>i\<close> flag, as
  \<^verbatim>\<open>parseInt(..., 16)\<close> reads it; \<open>None\<close> for every other character.
\<close>

definition hex_digit_value :: "char \<Rightarrow> nat option" where
  "hex_digit_value c =
     (let k = (of_char c :: nat) in
      if 48 \<le> k \<and> k \<le> 57 then Some (k - 48)
      else if 97 \<le> k \<and> k \<le> 102 then Some (k - 87)
      else if 65 \<le> k \<and> k \<le> 70 then Some (k - 55)
      else None)"

text \<open>
  \<^verbatim>\<open>parseInt\<close> of a capture group; the pattern has checked that every character of the
  group is a hexadecimal digit.
\<close>

definition parseInt16 :: "string \<Rightarrow> int" where
  "parseInt16 ds = int (foldl (\<lambda>acc c. 16 * acc + the (hex_digit_value c)) 0 ds)"

text \<open>
  \<^verbatim>\<open>hexToRgb\<close>: the pattern \<^verbatim>\<open>/^#?([a-f\d]{2})([a-f\d]{2})([a-f\d]{2})$/i\<close> matches an
  optional \<open>#\<close> followed by exactly six hexadecimal digits; \<open>None\<close> is \<^verbatim>\<open>null\<close>.
\<close>

definition hex_body :: "string \<Rightarrow> string" where
  "hex_body hex = (case hex of c # rest \<Rightarrow> if c = CHR ''#'' then rest else hex | [] \<Rightarrow> hex)"

definition hexToRgb :: "string \<Rightarrow> (int \<times> int \<times> int) option" where
  "hexToRgb hex =
     (let body = hex_body hex in
      if length body = 6 \<and> list_all (\<lambda>c. hex_digit_value c \<noteq> None) body
      then Some (parseInt16 (take 2 body), parseInt16 (take 2 (drop 2 body)),
                 parseInt16 (drop 4 body))
      else None)"

text \<open>The digit characters of \<^verbatim>\<open>Number.prototype.toString(16)\<close>.\<close>

definition hex_char :: "nat \<Rightarrow> char" where
  "hex_char d = (if d < 10 then char_of (48 + d) else char_of (87 + d))"

text \<open>
  The lower-case form of a character (\<^verbatim>\<open>toLowerCase\<close> on the letters \<open>A\<close> to \<open>F\<close>, the only
  upper-case letters a colour that parses can hold); used to state what \<^verbatim>\<open>rgbToHex\<close> gives
  back for a parsed colour.
\<close>

definition lower_hex :: "char \<Rightarrow> char" where
  "lower_hex c =
     (let k = (of_char c :: nat) in if 65 \<le> k \<and> k \<le> 70 then char_of (k + 32) else c)"

function hex_digits :: "nat \<Rightarrow> string" where
  "hex_digits n = (if n < 16 then [hex_char n] else hex_digits (n div 16) @ [hex_char (n mod 16)])"
  by pat_completeness auto
termination
  by (relation "measure (\<lambda>n. n)") auto

declare hex_digits.simps [simp del]

text \<open>\<^verbatim>\<open>toString(16)\<close> of an integer.\<close>

definition toString16 :: "int \<Rightarrow> string" where
  "toString16 n = (if n < 0 then CHR ''-'' # hex_digits (nat (- n)) else hex_digits (nat n))"

text \<open>\<^verbatim>\<open>x << n\<close>: the left shift of the 32-bit two's complement value of \<open>x\<close>.\<close>

definition shl32 :: "int \<Rightarrow> nat \<Rightarrow> int" where
  "shl32 x n = sint (push_bit n (word_of_int x :: 32 word))"

text \<open>
  \<^verbatim>\<open>ColorUtils.rgbToHex\<close>:
  \<^verbatim>\<open>`#${((1 << 24) + (r << 16) + (g << 8) + b).toString(16).slice(1)}`\<close>.
\<close>

definition rgbToHex :: "int \<Rightarrow> int \<Rightarrow> int \<Rightarrow> string" where
  "rgbToHex r g b = CHR ''#'' # drop 1 (toString16 (shl32 1 24 + shl32 r 16 + shl32 g 8 + b))"

text \<open>\<^verbatim>\<open>Math.round\<close>: to the nearest integer, a tie towards plus infinity.\<close>

definition Math_round :: "real \<Rightarrow> int" where
  "Math_round x = \<lfloor>x + 1 / 2\<rfloor>"

text \<open>\<^verbatim>\<open>ColorUtils.interpolateRgb\<close>.\<close>

definition interpolateRgb :: "int \<times> int \<times> int \<Rightarrow> int \<times> int \<times> int \<Rightarrow> real \<Rightarrow> int \<times> int \<times> int" where
  "interpolateRgb color1 color2 t =
     (case (color1, color2) of
        ((r1, g1, b1), (r2, g2, b2)) \<Rightarrow>
          (Math_round (of_int r1 + (of_int r2 - of_int r1) * t),
           Math_round (of_int g1 + (of_int g2 - of_int g1) * t),
           Math_round (of_int b1 + (of_int b2 - of_int b1) * t)))"

text \<open>
  The remainder \<^verbatim>\<open>x % y\<close> of two numbers: the quotient is truncated towards zero.
\<close>

definition js_rem :: "real \<Rightarrow> real \<Rightarrow> real" where
  "js_rem x y = x - y * of_int (if 0 \<le> x / y then \<lfloor>x / y\<rfloor> else \<lceil>x / y\<rceil>)"

text \<open>
  \<^verbatim>\<open>hexToRgb(colors[index])\<close>: an index outside the array reads \<^verbatim>\<open>undefined\<close>, which the
  pattern does not match.
\<close>

definition hexToRgb_at :: "string list \<Rightarrow> int \<Rightarrow> (int \<times> int \<times> int) option" where
  "hexToRgb_at colors index =
     (if 0 \<le> index \<and> index < int (length colors) then hexToRgb (colors ! nat index) else None)"

text \<open>
  One round of the loop of \<^verbatim>\<open>generateSmoothGradient\<close>: the string it pushes at index
  \<open>i\<close>, or \<open>None\<close> when one of the two colours does not parse.
\<close>

definition gradient_entry :: "string list \<Rightarrow> nat \<Rightarrow> nat \<Rightarrow> string option" where
  "gradient_entry colors steps i =
     (let segmentSize = real steps / (real (length colors) - 1);
          segmentIndex = \<lfloor>real i / segmentSize\<rfloor>;
          segmentT = js_rem (real i) segmentSize / segmentSize;
          color1Index = min segmentIndex (int (length colors) - 2);
          color2Index = color1Index + 1
      in case (hexToRgb_at colors color1Index, hexToRgb_at colors color2Index) of
           (Some color1, Some color2) \<Rightarrow>
             (case interpolateRgb color1 color2 segmentT of (r, g, b) \<Rightarrow> Some (rgbToHex r g b))
         | _ \<Rightarrow> None)"

function gradient_loop :: "string list \<Rightarrow> nat \<Rightarrow> nat \<Rightarrow> string list \<Rightarrow> string list" where
  "gradient_loop colors steps i gradient =
     (if i < steps
      then gradient_loop colors steps (i + 1)
             (case gradient_entry colors steps i of
                Some h \<Rightarrow> gradient @ [h]
              | None \<Rightarrow> gradient)
      else gradient)"
  by pat_completeness auto
termination
  by (relation "measure (\<lambda>(colors, steps, i, gradient). steps - i)") auto

declare gradient_loop.simps [simp del]

text \<open>\<^verbatim>\<open>generateSmoothGradient(colors, steps)\<close> for a number of steps \<open>0, 1, 2, ...\<close>\<close>

definition generateSmoothGradient :: "string list \<Rightarrow> nat \<Rightarrow> string list" where
  "generateSmoothGradient colors steps =
     (if length colors < 2 then colors else gradient_loop colors steps 0 [])"

section \<open>Validation: what a validated object looks like\<close>

lemma clamp_zoom_cases:
  assumes "js_gt z (Fin 0)"
  shows "Math_max (Fin (1 / 10)) (Math_min (Fin 1000000) z) =
         (case z of Fin x \<Rightarrow> Fin (max (1 / 10) (min 1000000 x)) | _ \<Rightarrow> Fin 1000000)"
  using assms by (cases z) auto

lemma clamp_zoom_range:
  assumes "js_gt z (Fin 0)"
  shows "\<exists>x. Math_max (Fin (1 / 10)) (Math_min (Fin 1000000) z) = Fin x
             \<and> 1 / 10 \<le> x \<and> x \<le> 1000000"
proof (cases z)
  case (Fin y)
  have "Math_max (Fin (1 / 10)) (Math_min (Fin 1000000) z) = Fin (max (1 / 10) (min 1000000 y))"
    using clamp_zoom_cases [OF assms] Fin by simp
  moreover have "1 / 10 \<le> max (1 / 10) (min 1000000 y)" "max (1 / 10) (min 1000000 y) \<le> 1000000"
    by simp_all
  ultimately show ?thesis by blast
next
  case PosInf
  have "Math_max (Fin (1 / 10)) (Math_min (Fin 1000000) z) = Fin 1000000"
    using clamp_zoom_cases [OF assms] PosInf by simp
  then show ?thesis by simp
qed (use assms in auto)

lemma validated_fields:
  "fractalType (validateFractalParams p) \<in> set getAvailableTypes"
  "escapeRadius (validateFractalParams p) \<in> set [Fin 2, Fin 4, Fin 8]"
  "maxIterations (validateFractalParams p) \<in> set [Fin 50, Fin 100, Fin 500, Fin 1000]"
  "valid_complex (center (validateFractalParams p))"
  "colorPalette (validateFractalParams p) \<noteq> []"
  "precision (validateFractalParams p) \<in> set [''lowp'', ''mediump'', ''highp'']"
  by (auto simp: validateFractalParams_def defaults_def getAvailableTypes_def valid_complex_def
      split: option.splits)

lemma validated_zoom:
  "\<exists>x. zoom (validateFractalParams p) = Fin x \<and> 1 / 10 \<le> x \<and> x \<le> 1000000"
proof (cases "zoom_p p")
  case None
  then show ?thesis by (simp add: validateFractalParams_def defaults_def)
next
  case (Some z)
  show ?thesis
  proof (cases "valid_zoom z")
    case True
    then have "js_gt z (Fin 0)" by (simp add: valid_zoom_def)
    from clamp_zoom_range [OF this] show ?thesis using Some True
      by (simp add: validateFractalParams_def)
  next
    case False
    then show ?thesis using Some by (simp add: validateFractalParams_def defaults_def)
  qed
qed

lemma validated_julia:
  "juliaConstant (validateFractalParams p) = None \<or>
   (\<exists>jc. juliaConstant (validateFractalParams p) = Some jc \<and> valid_complex jc)"
  by (auto simp: validateFractalParams_def split: option.splits)

text \<open>An object whose every property passes validation comes back unchanged.\<close>

lemma validate_fixes_valid:
  assumes "fractalType q \<in> set getAvailableTypes"
    and "escapeRadius q \<in> set [Fin 2, Fin 4, Fin 8]"
    and "maxIterations q \<in> set [Fin 50, Fin 100, Fin 500, Fin 1000]"
    and "valid_complex (center q)"
    and "zoom q = Fin x" and "1 / 10 \<le> x" and "x \<le> 1000000"
    and "juliaConstant q = None \<or> (\<exists>jc. juliaConstant q = Some jc \<and> valid_complex jc)"
    and "colorPalette q \<noteq> []"
    and "precision q \<in> set [''lowp'', ''mediump'', ''highp'']"
  shows "validateFractalParams (as_partial q) = q"
proof -
  have ne: "fractalType q \<noteq> []"
    using assms(1) by (auto simp: getAvailableTypes_def)
  have z: "valid_zoom (Fin x)" "Math_max (Fin (1 / 10)) (Math_min (Fin 1000000) (Fin x)) = Fin x"
    using assms(6,7) by (auto simp: valid_zoom_def)
  show ?thesis
    using assms(1,2,3,4,5,8,9,10) ne z
    by (cases q) (auto simp: validateFractalParams_def as_partial_def)
qed

section \<open>Validation: idempotence\<close>

text \<open>
  Claim C9. \<^verbatim>\<open>validateFractalParams\<close> is idempotent: validating the object it returned
  gives that object again. Every property of a returned object passes validation: the
  fractal type is in the registry, the escape radius is 2, 4 or 8, the iteration count
  is 50, 100, 500 or 1000, the zoom lies in \<open>[0.1, 1000000]\<close> and no component of the
  centre is NaN.
\<close>

theorem validateFractalParams_idempotent:
  "validateFractalParams (as_partial (validateFractalParams p)) = validateFractalParams p
   \<and> fractalType (validateFractalParams p) \<in> set getAvailableTypes
   \<and> escapeRadius (validateFractalParams p) \<in> set [Fin 2, Fin 4, Fin 8]
   \<and> maxIterations (validateFractalParams p) \<in> set [Fin 50, Fin 100, Fin 500, Fin 1000]
   \<and> js_ge (zoom (validateFractalParams p)) (Fin (1 / 10))
   \<and> js_le (zoom (validateFractalParams p)) (Fin 1000000)
   \<and> valid_complex (center (validateFractalParams p))"
proof -
  obtain x where x: "zoom (validateFractalParams p) = Fin x" "1 / 10 \<le> x" "x \<le> 1000000"
    using validated_zoom by blast
  have idem: "validateFractalParams (as_partial (validateFractalParams p)) = validateFractalParams p"
    by (rule validate_fixes_valid
          [OF validated_fields(1-4) x validated_julia validated_fields(5,6)])
  have lo: "js_ge (zoom (validateFractalParams p)) (Fin (1 / 10))"
    using x by auto
  have hi: "js_le (zoom (validateFractalParams p)) (Fin 1000000)"
    using x by (auto simp: js_le_def)
  show ?thesis
    using idem lo hi validated_fields(1-4) by blast
qed

section \<open>Validation: property by property\<close>

text \<open>
  Claim C2, as stated, fails: an infinite component does not make the centre invalid
  (only NaN does), and a positive zoom outside \<open>[0.1, 1000000]\<close> is not kept but clamped.
  The update \<^verbatim>\<open>{ center: { real: Infinity, imag: 0 }, zoom: 2000000 }\<close> comes back with
  the infinite centre and with zoom 1000000.
\<close>

theorem validate_infinite_center_counterexample:
  "center (validateFractalParams
     \<lparr> fractalType_p = None, escapeRadius_p = None, maxIterations_p = None,
       center_p = Some \<lparr> real_v = PosInf, imag_v = Fin 0 \<rparr>, zoom_p = Some (Fin 2000000),
       juliaConstant_p = None, colorPalette_p = None, precision_p = None \<rparr>)
     \<noteq> \<lparr> real_v = Fin 0, imag_v = Fin 0 \<rparr>
   \<and> zoom (validateFractalParams
     \<lparr> fractalType_p = None, escapeRadius_p = None, maxIterations_p = None,
       center_p = Some \<lparr> real_v = PosInf, imag_v = Fin 0 \<rparr>, zoom_p = Some (Fin 2000000),
       juliaConstant_p = None, colorPalette_p = None, precision_p = None \<rparr>)
     = Fin 1000000"
  by (simp add: validateFractalParams_def valid_complex_def valid_zoom_def)

text \<open>
  Claim C2, amended. Each property that fails validation is replaced by its default
  (fractal type \<open>mandelbrot\<close>, escape radius 2, 100 iterations, centre \<open>(0, 0)\<close>, zoom 4,
  palette \<open>viridis\<close>, precision \<open>highp\<close>), whatever the other properties are, and each
  valid property is kept. A centre fails when a component is NaN (an infinite component
  is kept); a zoom fails when it is not greater than zero or is NaN, a valid zoom is
  clamped into \<open>[0.1, 1000000]\<close> and so kept when it lies there; an invalid Julia
  constant is dropped.
\<close>

theorem validate_property_by_property:
  "(fractalType_p p = Some t \<and> t \<in> set getAvailableTypes
      \<longrightarrow> fractalType (validateFractalParams p) = t)
   \<and> ((\<forall>t'. fractalType_p p = Some t' \<longrightarrow> t' \<notin> set getAvailableTypes)
      \<longrightarrow> fractalType (validateFractalParams p) = ''mandelbrot'')
   \<and> (escapeRadius_p p = Some r \<and> r \<in> set [Fin 2, Fin 4, Fin 8]
      \<longrightarrow> escapeRadius (validateFractalParams p) = r)
   \<and> ((\<forall>r'. escapeRadius_p p = Some r' \<longrightarrow> r' \<notin> set [Fin 2, Fin 4, Fin 8])
      \<longrightarrow> escapeRadius (validateFractalParams p) = Fin 2)
   \<and> (maxIterations_p p = Some n \<and> n \<in> set [Fin 50, Fin 100, Fin 500, Fin 1000]
      \<longrightarrow> maxIterations (validateFractalParams p) = n)
   \<and> ((\<forall>n'. maxIterations_p p = Some n' \<longrightarrow> n' \<notin> set [Fin 50, Fin 100, Fin 500, Fin 1000])
      \<longrightarrow> maxIterations (validateFractalParams p) = Fin 100)
   \<and> (center_p p = Some c \<and> \<not> isNaN (real_v c) \<and> \<not> isNaN (imag_v c)
      \<longrightarrow> center (validateFractalParams p) = c)
   \<and> ((\<forall>c'. center_p p = Some c' \<longrightarrow> isNaN (real_v c') \<or> isNaN (imag_v c'))
      \<longrightarrow> center (validateFractalParams p) = \<lparr> real_v = Fin 0, imag_v = Fin 0 \<rparr>)
   \<and> (zoom_p p = Some (Fin x) \<and> 1 / 10 \<le> x \<and> x \<le> 1000000
      \<longrightarrow> zoom (validateFractalParams p) = Fin x)
   \<and> (zoom_p p = Some z \<and> js_gt z (Fin 0)
      \<longrightarrow> zoom (validateFractalParams p) =
            (case z of Fin y \<Rightarrow> Fin (max (1 / 10) (min 1000000 y)) | _ \<Rightarrow> Fin 1000000))
   \<and> ((\<forall>z'. zoom_p p = Some z' \<longrightarrow> \<not> js_gt z' (Fin 0))
      \<longrightarrow> zoom (validateFractalParams p) = Fin 4)
   \<and> (juliaConstant_p p = Some j \<and> \<not> isNaN (real_v j) \<and> \<not> isNaN (imag_v j)
      \<longrightarrow> juliaConstant (validateFractalParams p) = Some j)
   \<and> ((\<forall>j'. juliaConstant_p p = Some j' \<longrightarrow> isNaN (real_v j') \<or> isNaN (imag_v j'))
      \<longrightarrow> juliaConstant (validateFractalParams p) = None)
   \<and> (colorPalette_p p = Some s \<and> s \<noteq> []
      \<longrightarrow> colorPalette (validateFractalParams p) = s)
   \<and> ((\<forall>s'. colorPalette_p p = Some s' \<longrightarrow> s' = [])
      \<longrightarrow> colorPalette (validateFractalParams p) = ''viridis'')
   \<and> (precision_p p = Some q \<and> q \<in> set [''lowp'', ''mediump'', ''highp'']
      \<longrightarrow> precision (validateFractalParams p) = q)
   \<and> ((\<forall>q'. precision_p p = Some q' \<longrightarrow> q' \<notin> set [''lowp'', ''mediump'', ''highp''])
      \<longrightarrow> precision (validateFractalParams p) = ''highp'')"
proof -
  have ft: "fractalType_p p = Some t \<and> t \<in> set getAvailableTypes
      \<longrightarrow> fractalType (validateFractalParams p) = t"
    by (auto simp: validateFractalParams_def getAvailableTypes_def)
  have ft': "(\<forall>t'. fractalType_p p = Some t' \<longrightarrow> t' \<notin> set getAvailableTypes)
      \<longrightarrow> fractalType (validateFractalParams p) = ''mandelbrot''"
    by (cases "fractalType_p p") (simp_all add: validateFractalParams_def defaults_def)
  have er: "escapeRadius_p p = Some r \<and> r \<in> set [Fin 2, Fin 4, Fin 8]
      \<longrightarrow> escapeRadius (validateFractalParams p) = r"
    by (auto simp: validateFractalParams_def)
  have er': "(\<forall>r'. escapeRadius_p p = Some r' \<longrightarrow> r' \<notin> set [Fin 2, Fin 4, Fin 8])
      \<longrightarrow> escapeRadius (validateFractalParams p) = Fin 2"
    by (cases "escapeRadius_p p") (simp_all add: validateFractalParams_def defaults_def)
  have mi: "maxIterations_p p = Some n \<and> n \<in> set [Fin 50, Fin 100, Fin 500, Fin 1000]
      \<longrightarrow> maxIterations (validateFractalParams p) = n"
    by (auto simp: validateFractalParams_def)
  have mi': "(\<forall>n'. maxIterations_p p = Some n' \<longrightarrow> n' \<notin> set [Fin 50, Fin 100, Fin 500, Fin 1000])
      \<longrightarrow> maxIterations (validateFractalParams p) = Fin 100"
    by (cases "maxIterations_p p") (simp_all add: validateFractalParams_def defaults_def)
  have ce: "center_p p = Some c \<and> \<not> isNaN (real_v c) \<and> \<not> isNaN (imag_v c)
      \<longrightarrow> center (validateFractalParams p) = c"
    by (simp add: validateFractalParams_def valid_complex_def)
  have ce': "(\<forall>c'. center_p p = Some c' \<longrightarrow> isNaN (real_v c') \<or> isNaN (imag_v c'))
      \<longrightarrow> center (validateFractalParams p) = \<lparr> real_v = Fin 0, imag_v = Fin 0 \<rparr>"
    by (cases "center_p p")
       (auto simp: validateFractalParams_def valid_complex_def defaults_def)
  have zo: "zoom_p p = Some z \<and> js_gt z (Fin 0)
      \<longrightarrow> zoom (validateFractalParams p) =
            (case z of Fin y \<Rightarrow> Fin (max (1 / 10) (min 1000000 y)) | _ \<Rightarrow> Fin 1000000)"
  proof
    assume a: "zoom_p p = Some z \<and> js_gt z (Fin 0)"
    then have "valid_zoom z" by (cases z) (simp_all add: valid_zoom_def)
    then show "zoom (validateFractalParams p) =
            (case z of Fin y \<Rightarrow> Fin (max (1 / 10) (min 1000000 y)) | _ \<Rightarrow> Fin 1000000)"
      using a clamp_zoom_cases [of z] by (simp add: validateFractalParams_def)
  qed
  have zk: "zoom_p p = Some (Fin x) \<and> 1 / 10 \<le> x \<and> x \<le> 1000000
      \<longrightarrow> zoom (validateFractalParams p) = Fin x"
    by (auto simp: validateFractalParams_def valid_zoom_def)
  have zo': "(\<forall>z'. zoom_p p = Some z' \<longrightarrow> \<not> js_gt z' (Fin 0))
      \<longrightarrow> zoom (validateFractalParams p) = Fin 4"
    by (cases "zoom_p p") (simp_all add: validateFractalParams_def valid_zoom_def defaults_def)
  have jc: "juliaConstant_p p = Some j \<and> \<not> isNaN (real_v j) \<and> \<not> isNaN (imag_v j)
      \<longrightarrow> juliaConstant (validateFractalParams p) = Some j"
    by (simp add: validateFractalParams_def valid_complex_def)
  have jc': "(\<forall>j'. juliaConstant_p p = Some j' \<longrightarrow> isNaN (real_v j') \<or> isNaN (imag_v j'))
      \<longrightarrow> juliaConstant (validateFractalParams p) = None"
    by (cases "juliaConstant_p p") (auto simp: validateFractalParams_def valid_complex_def)
  have cp: "colorPalette_p p = Some s \<and> s \<noteq> []
      \<longrightarrow> colorPalette (validateFractalParams p) = s"
    by (simp add: validateFractalParams_def)
  have cp': "(\<forall>s'. colorPalette_p p = Some s' \<longrightarrow> s' = [])
      \<longrightarrow> colorPalette (validateFractalParams p) = ''viridis''"
    by (cases "colorPalette_p p") (simp_all add: validateFractalParams_def defaults_def)
  have pr: "precision_p p = Some q \<and> q \<in> set [''lowp'', ''mediump'', ''highp'']
      \<longrightarrow> precision (validateFractalParams p) = q"
    by (auto simp: validateFractalParams_def)
  have pr': "(\<forall>q'. precision_p p = Some q' \<longrightarrow> q' \<notin> set [''lowp'', ''mediump'', ''highp''])
      \<longrightarrow> precision (validateFractalParams p) = ''highp''"
    by (cases "precision_p p") (simp_all add: validateFractalParams_def defaults_def)
  show ?thesis
    using ft ft' er er' mi mi' ce ce' zk zo zo' jc jc' cp cp' pr pr' by blast
qed

text \<open>
  The update of the test suite's cases taken together: escape radius 3, 37 iterations,
  a NaN centre and zoom \<open>-1\<close> fall back to their defaults while the fractal type, the
  Julia constant, the palette and the precision are kept; and an update whose every
  property is valid is kept whole.
\<close>

theorem validate_property_by_property_witness:
  "validateFractalParams
     \<lparr> fractalType_p = Some ''julia'', escapeRadius_p = Some (Fin 3),
       maxIterations_p = Some (Fin 37),
       center_p = Some \<lparr> real_v = NaN, imag_v = Fin (1 / 2) \<rparr>, zoom_p = Some (Fin (- 1)),
       juliaConstant_p = Some \<lparr> real_v = Fin (- 1 / 2), imag_v = Fin (1 / 4) \<rparr>,
       colorPalette_p = Some ''plasma'', precision_p = Some ''lowp'' \<rparr>
   = \<lparr> fractalType = ''julia'', escapeRadius = Fin 2, maxIterations = Fin 100,
       center = \<lparr> real_v = Fin 0, imag_v = Fin 0 \<rparr>, zoom = Fin 4,
       juliaConstant = Some \<lparr> real_v = Fin (- 1 / 2), imag_v = Fin (1 / 4) \<rparr>,
       colorPalette = ''plasma'', precision = ''lowp'' \<rparr>
   \<and> validateFractalParams
     \<lparr> fractalType_p = Some ''newton'', escapeRadius_p = Some (Fin 4),
       maxIterations_p = Some (Fin 500),
       center_p = Some \<lparr> real_v = Fin (- 1 / 2), imag_v = Fin (3 / 4) \<rparr>,
       zoom_p = Some (Fin (21 / 2)), juliaConstant_p = None,
       colorPalette_p = Some ''fire'', precision_p = Some ''mediump'' \<rparr>
   = \<lparr> fractalType = ''newton'', escapeRadius = Fin 4, maxIterations = Fin 500,
       center = \<lparr> real_v = Fin (- 1 / 2), imag_v = Fin (3 / 4) \<rparr>, zoom = Fin (21 / 2),
       juliaConstant = None, colorPalette = ''fire'', precision = ''mediump'' \<rparr>"
  using
    validate_property_by_property
      [of "\<lparr> fractalType_p = Some ''julia'', escapeRadius_p = Some (Fin 3),
             maxIterations_p = Some (Fin 37),
             center_p = Some \<lparr> real_v = NaN, imag_v = Fin (1 / 2) \<rparr>, zoom_p = Some (Fin (- 1)),
             juliaConstant_p = Some \<lparr> real_v = Fin (- 1 / 2), imag_v = Fin (1 / 4) \<rparr>,
             colorPalette_p = Some ''plasma'', precision_p = Some ''lowp'' \<rparr>"
          "''julia''" "Fin 2" "Fin 100" "\<lparr> real_v = Fin 0, imag_v = Fin 0 \<rparr>" 4 "Fin 4"
          "\<lparr> real_v = Fin (- 1 / 2), imag_v = Fin (1 / 4) \<rparr>" "''plasma''" "''lowp''"]
    validate_property_by_property
      [of "\<lparr> fractalType_p = Some ''newton'', escapeRadius_p = Some (Fin 4),
             maxIterations_p = Some (Fin 500),
             center_p = Some \<lparr> real_v = Fin (- 1 / 2), imag_v = Fin (3 / 4) \<rparr>,
             zoom_p = Some (Fin (21 / 2)), juliaConstant_p = None,
             colorPalette_p = Some ''fire'', precision_p = Some ''mediump'' \<rparr>"
          "''newton''" "Fin 4" "Fin 500" "\<lparr> real_v = Fin (- 1 / 2), imag_v = Fin (3 / 4) \<rparr>"
          "21 / 2" "Fin (21 / 2)" "\<lparr> real_v = Fin 0, imag_v = Fin 0 \<rparr>" "''fire''" "''mediump''"]
  by (simp add: validateFractalParams_def valid_complex_def valid_zoom_def defaults_def
      getAvailableTypes_def)

section \<open>Coordinate mapping: the GPU path against the CPU paths\<close>

text \<open>
  Claim C1. The claim asks for one mapping on the GPU path and in the worker. The worker
  (and \<^verbatim>\<open>FractalRenderer.zoom\<close>) multiply the centred position by the zoom; the fragment
  shaders divide by it. On a 2 by 2 viewport with zoom 2 and centre 0, the pixel
  \<open>(0, 0)\<close>, normalised to \<open>(0, 0)\<close>, is the point \<open>(-1, -1)\<close> for the worker and for
  the renderer, and \<open>(-1/4, -1/4)\<close> for the shader.
\<close>

theorem shader_mapping_divides_by_zoom:
  "computeFractalRegion_coord
     \<lparr> center_vp = \<lparr> real_v = 0, imag_v = 0 \<rparr>, zoom_vp = 2, width = 2, height = 2,
       aspectRatio = 1 \<rparr> 0 0 = \<lparr> real_v = - 1, imag_v = - 1 \<rparr>
   \<and> renderer_pixelToComplex
     \<lparr> center_vp = \<lparr> real_v = 0, imag_v = 0 \<rparr>, zoom_vp = 2, width = 2, height = 2,
       aspectRatio = 1 \<rparr> 0 0 = \<lparr> real_v = - 1, imag_v = - 1 \<rparr>
   \<and> gpu_coord
     \<lparr> center_vp = \<lparr> real_v = 0, imag_v = 0 \<rparr>, zoom_vp = 2, width = 2, height = 2,
       aspectRatio = 1 \<rparr> (0 / 2, 0 / 2) = \<lparr> real_v = - 1 / 4, imag_v = - 1 / 4 \<rparr>"
  by (simp add: computeFractalRegion_coord_def renderer_pixelToComplex_def gpu_coord_def
      shader_main_c_def)

section \<open>Zoom at a point\<close>

text \<open>
  Claim C4. After \<^verbatim>\<open>zoom(factor, px, py)\<close> the coordinate under the pixel \<open>(px, py)\<close>,
  computed from the new viewport by the mapping \<^verbatim>\<open>zoom\<close> itself uses, is the coordinate
  computed from the old viewport; the zoom has been divided by the factor. In exact
  arithmetic the two coordinates are equal, not only close.
\<close>

theorem zoom_at_point_fixes_cursor:
  assumes "factor \<noteq> 0" and "width (viewport this) \<noteq> 0" and "height (viewport this) \<noteq> 0"
  shows "renderer_pixelToComplex
           (viewport (FractalRenderer_zoom this factor (Some px) (Some py))) px py
         = renderer_pixelToComplex (viewport this) px py
       \<and> zoom_vp (viewport (FractalRenderer_zoom this factor (Some px) (Some py)))
         = zoom_vp (viewport this) / factor"
  by (simp add: FractalRenderer_zoom_def renderer_pixelToComplex_def Let_def)

text \<open>
  An 800 by 600 viewport centred at \<open>(-1/2, 0)\<close> with zoom 4, zoomed by the factor 2 at
  the pixel \<open>(200, 150)\<close>: the point under the cursor is \<open>(-11/6, -1)\<close> before and after.
\<close>

theorem zoom_at_point_fixes_cursor_witness:
  "renderer_pixelToComplex
     (viewport (FractalRenderer_zoom
        \<lparr> viewport = \<lparr> center_vp = \<lparr> real_v = - 1 / 2, imag_v = 0 \<rparr>, zoom_vp = 4,
                        width = 800, height = 600, aspectRatio = 4 / 3 \<rparr>,
          currentParams_zoom = 4,
          currentParams_center = \<lparr> real_v = - 1 / 2, imag_v = 0 \<rparr> \<rparr>
        2 (Some 200) (Some 150))) 200 150
   = \<lparr> real_v = - 11 / 6, imag_v = - 1 \<rparr>
   \<and> zoom_vp (viewport (FractalRenderer_zoom
        \<lparr> viewport = \<lparr> center_vp = \<lparr> real_v = - 1 / 2, imag_v = 0 \<rparr>, zoom_vp = 4,
                        width = 800, height = 600, aspectRatio = 4 / 3 \<rparr>,
          currentParams_zoom = 4,
          currentParams_center = \<lparr> real_v = - 1 / 2, imag_v = 0 \<rparr> \<rparr>
        2 (Some 200) (Some 150))) = 2"
proof -
  let ?r = "\<lparr> viewport = \<lparr> center_vp = \<lparr> real_v = - 1 / 2, imag_v = 0 \<rparr>, zoom_vp = 4,
                        width = 800, height = 600, aspectRatio = 4 / 3 \<rparr>,
          currentParams_zoom = 4,
          currentParams_center = \<lparr> real_v = - 1 / 2, imag_v = (0::real) \<rparr> \<rparr>"
  have h: "(2::real) \<noteq> 0" "width (viewport ?r) \<noteq> 0" "height (viewport ?r) \<noteq> 0"
    by simp_all
  have old: "renderer_pixelToComplex (viewport ?r) 200 150 = \<lparr> real_v = - 11 / 6, imag_v = - 1 \<rparr>"
    by (simp add: renderer_pixelToComplex_def)
  show ?thesis
    using zoom_at_point_fixes_cursor [OF h, of 200 150] old by simp
qed

section \<open>The Newton step never divides by zero\<close>

text \<open>
  Claim C10. When the squared magnitude of the denominator \<open>3z\<^sup>2\<close> is below \<open>1e-10\<close> the
  step returns \<open>z\<close> unchanged; \<open>z = 0\<close> is such a point and so a fixed point; and the
  divisor of the division branch is the squared magnitude, at least \<open>1e-10\<close>, never zero.
\<close>

theorem newton_formula_never_divides_by_zero:
  "(denomMagnitude z < 1 / 10 ^ 10 \<longrightarrow> newton_formula z = z)
   \<and> newton_formula \<lparr> real_v = 0, imag_v = 0 \<rparr> = \<lparr> real_v = 0, imag_v = 0 \<rparr>
   \<and> newton_divisor z \<noteq> Some 0
   \<and> (newton_divisor z = Some d \<longrightarrow> d = denomMagnitude z \<and> 1 / 10 ^ 10 \<le> d)"
  by (auto simp: newton_formula_def newton_divisor_def denomMagnitude_def Let_def
      split: if_splits)

text \<open>
  At \<open>z = 1/1024\<close> the guard holds and the step returns \<open>z\<close>; at \<open>z = 2\<close> the division is
  by 144 and the step gives \<open>17/12\<close>.
\<close>

theorem newton_formula_never_divides_by_zero_witness:
  "denomMagnitude \<lparr> real_v = 1 / 1024, imag_v = 0 \<rparr> < 1 / 10 ^ 10
   \<and> newton_formula \<lparr> real_v = 1 / 1024, imag_v = 0 \<rparr> = \<lparr> real_v = 1 / 1024, imag_v = 0 \<rparr>
   \<and> newton_divisor \<lparr> real_v = 2, imag_v = 0 \<rparr> = Some 144
   \<and> newton_formula \<lparr> real_v = 2, imag_v = 0 \<rparr> = \<lparr> real_v = 17 / 12, imag_v = 0 \<rparr>"
proof -
  have g: "denomMagnitude \<lparr> real_v = 1 / 1024, imag_v = 0 \<rparr> < 1 / 10 ^ 10"
    by (simp add: denomMagnitude_def)
  have d: "newton_divisor \<lparr> real_v = 2, imag_v = 0 \<rparr> = Some 144"
    by (simp add: newton_divisor_def denomMagnitude_def)
  have f: "newton_formula \<lparr> real_v = 2, imag_v = 0 \<rparr> = \<lparr> real_v = 17 / 12, imag_v = 0 \<rparr>"
    by (simp add: newton_formula_def d)
  show ?thesis
    using newton_formula_never_divides_by_zero [of "\<lparr> real_v = 1 / 1024, imag_v = 0 \<rparr>" 0]
      newton_formula_never_divides_by_zero [of "\<lparr> real_v = 2, imag_v = 0 \<rparr>" 144] g d f
    by simp
qed

section \<open>Level of detail: bounds, priority and clamp\<close>

lemma fold_baseLOD_range:
  assumes "0 \<le> acc" and "acc \<le> int k" and "\<forall>i \<in> set is. i < k"
  shows "0 \<le> fold (\<lambda>i lodLevel. if js_gt z (ths ! i) then int i + 1 else lodLevel) is acc
       \<and> fold (\<lambda>i lodLevel. if js_gt z (ths ! i) then int i + 1 else lodLevel) is acc \<le> int k"
  using assms
proof (induction "is" arbitrary: acc)
  case Nil
  then show ?case by simp
next
  case (Cons i "is")
  let ?acc' = "if js_gt z (ths ! i) then int i + 1 else acc"
  have "0 \<le> ?acc'" "?acc' \<le> int k"
    using Cons.prems by auto
  moreover have "\<forall>i \<in> set is. i < k" using Cons.prems by simp
  ultimately show ?case using Cons.IH [of ?acc'] by simp
qed

lemma baseLOD_range: "0 \<le> baseLOD ths z \<and> baseLOD ths z \<le> int (length ths)"
  unfolding baseLOD_def by (rule fold_baseLOD_range) auto

lemma baseLOD_initial:
  "baseLOD (zoomThresholds initial_lodConfig) (Fin 50) = 2"
  "baseLOD (zoomThresholds initial_lodConfig) (Fin 500) = 3"
  "baseLOD (zoomThresholds initial_lodConfig) (Fin 5000) = 4"
  by (simp_all add: baseLOD_def initial_lodConfig_def upt_rec)

lemma tiers_initial: "length (qualitySettings initial_lodConfig) = 4"
  by (simp add: initial_lodConfig_def)

text \<open>
  Claim C7, as stated, fails in its directions: the adjustment is an \<^verbatim>\<open>if ... else if\<close>
  followed by a clamp, not two independent rules. With the initial configuration, at
  70 frames per second and 20 ms per frame (performance not acceptable, frame rate
  above 65) the monitor recommends tier 3 at zoom 50, one tier lower in quality than the
  baseline 2 although the frame rate exceeds 65, and tier 2 at zoom 500, one tier higher
  than the baseline 3 although performance is not acceptable. At 70 frames per second
  and 10 ms per frame and zoom 5000 the zoom level is 4, beyond the list, and the
  recommendation stays at the last tier 3.
\<close>

theorem getRecommendedLOD_direction_counterexample:
  "\<not> isPerformanceAcceptable
       \<lparr> metrics = \<lparr> fps = Fin 70, frameTime = Fin 20, gpuMemoryUsage = Fin 0,
                     renderLatency = Fin 20, lastRenderTime = Fin 20 \<rparr>,
         lodConfig = initial_lodConfig \<rparr>
   \<and> baseLOD (zoomThresholds initial_lodConfig) (Fin 50) = 2
   \<and> getRecommendedLOD
       \<lparr> metrics = \<lparr> fps = Fin 70, frameTime = Fin 20, gpuMemoryUsage = Fin 0,
                     renderLatency = Fin 20, lastRenderTime = Fin 20 \<rparr>,
         lodConfig = initial_lodConfig \<rparr> (Fin 50) = 3
   \<and> baseLOD (zoomThresholds initial_lodConfig) (Fin 500) = 3
   \<and> getRecommendedLOD
       \<lparr> metrics = \<lparr> fps = Fin 70, frameTime = Fin 20, gpuMemoryUsage = Fin 0,
                     renderLatency = Fin 20, lastRenderTime = Fin 20 \<rparr>,
         lodConfig = initial_lodConfig \<rparr> (Fin 500) = 2
   \<and> isPerformanceAcceptable
       \<lparr> metrics = \<lparr> fps = Fin 70, frameTime = Fin 10, gpuMemoryUsage = Fin 0,
                     renderLatency = Fin 10, lastRenderTime = Fin 10 \<rparr>,
         lodConfig = initial_lodConfig \<rparr>
   \<and> baseLOD (zoomThresholds initial_lodConfig) (Fin 5000) = 4
   \<and> getRecommendedLOD
       \<lparr> metrics = \<lparr> fps = Fin 70, frameTime = Fin 10, gpuMemoryUsage = Fin 0,
                     renderLatency = Fin 10, lastRenderTime = Fin 10 \<rparr>,
         lodConfig = initial_lodConfig \<rparr> (Fin 5000) = 3"
  by (simp add: getRecommendedLOD_def adjustLOD_def isPerformanceAcceptable_def js_le_def
      baseLOD_initial tiers_initial)

text \<open>
  Claim C7, amended. For every zoom (NaN and the infinities included), every metrics
  state and every configuration with at least one quality tier, \<^verbatim>\<open>getRecommendedLOD\<close>
  returns an index of the tier list, at most one tier away from the baseline tier that
  the zoom alone selects (the zoom level, clamped to the list as the final \<^verbatim>\<open>Math.min\<close>
  does). The adjustment has a priority: when performance is not acceptable and the zoom
  level is below the last tier, the result is the zoom level plus one, whatever the
  frame rate; otherwise, when the frame rate exceeds 65 and the zoom level is above 0,
  the level is lowered by one, also when performance is not acceptable at the last tier,
  and then clamped to the last tier; otherwise the result is the clamped zoom level.
\<close>

theorem getRecommendedLOD_priority_and_clamp:
  assumes "qualitySettings (lodConfig this) \<noteq> []"
  shows "0 \<le> getRecommendedLOD this z
       \<and> getRecommendedLOD this z \<le> int (length (qualitySettings (lodConfig this))) - 1
       \<and> \<bar>getRecommendedLOD this z
           - min (baseLOD (zoomThresholds (lodConfig this)) z)
                 (int (length (qualitySettings (lodConfig this))) - 1)\<bar> \<le> 1
       \<and> (\<not> isPerformanceAcceptable this
            \<and> baseLOD (zoomThresholds (lodConfig this)) z
                < int (length (qualitySettings (lodConfig this))) - 1
          \<longrightarrow> getRecommendedLOD this z = baseLOD (zoomThresholds (lodConfig this)) z + 1)
       \<and> ((isPerformanceAcceptable this
             \<or> int (length (qualitySettings (lodConfig this))) - 1
                 \<le> baseLOD (zoomThresholds (lodConfig this)) z)
            \<and> js_gt (fps (metrics this)) (Fin 65)
            \<and> 0 < baseLOD (zoomThresholds (lodConfig this)) z
          \<longrightarrow> getRecommendedLOD this z
              = min (baseLOD (zoomThresholds (lodConfig this)) z - 1)
                    (int (length (qualitySettings (lodConfig this))) - 1))
       \<and> ((isPerformanceAcceptable this
             \<or> int (length (qualitySettings (lodConfig this))) - 1
                 \<le> baseLOD (zoomThresholds (lodConfig this)) z)
            \<and> (baseLOD (zoomThresholds (lodConfig this)) z \<le> 0
                 \<or> \<not> js_gt (fps (metrics this)) (Fin 65))
          \<longrightarrow> getRecommendedLOD this z
              = min (baseLOD (zoomThresholds (lodConfig this)) z)
                    (int (length (qualitySettings (lodConfig this))) - 1))"
proof -
  define b where "b = baseLOD (zoomThresholds (lodConfig this)) z"
  define l where "l = int (length (qualitySettings (lodConfig this))) - 1"
  have b0: "0 \<le> b"
    unfolding b_def using baseLOD_range by blast
  have l0: "0 \<le> l"
    unfolding l_def using assms by (cases "qualitySettings (lodConfig this)") simp_all
  have r: "getRecommendedLOD this z
           = min (if \<not> isPerformanceAcceptable this \<and> b < l then b + 1
                  else if js_gt (fps (metrics this)) (Fin 65) \<and> 0 < b then b - 1 else b) l"
    by (simp add: getRecommendedLOD_def adjustLOD_def b_def l_def)
  have key: "0 \<le> r \<and> r \<le> l' \<and> \<bar>r - min b' l'\<bar> \<le> 1
             \<and> (\<not> A \<and> b' < l' \<longrightarrow> r = b' + 1)
             \<and> ((A \<or> l' \<le> b') \<and> F \<and> 0 < b' \<longrightarrow> r = min (b' - 1) l')
             \<and> ((A \<or> l' \<le> b') \<and> (b' \<le> 0 \<or> \<not> F) \<longrightarrow> r = min b' l')"
    if "r = min (if \<not> A \<and> b' < l' then b' + 1 else if F \<and> 0 < b' then b' - 1 else b') l'"
      and "0 \<le> b'" and "0 \<le> l'"
    for r b' l' :: int and A F :: bool
    using that by auto
  show ?thesis
    using key [OF r b0 l0] by (simp add: b_def l_def)
qed

text \<open>
  With the initial configuration at zoom 50 the baseline tier is 2: at 30 frames per
  second and 33 ms per frame the monitor recommends tier 3, at 70 frames per second and
  10 ms per frame tier 1, at 60 frames per second and 10 ms per frame tier 2. At zoom
  500, baseline 3, with 70 frames per second and 20 ms per frame it recommends tier 2.
\<close>

theorem getRecommendedLOD_priority_and_clamp_witness:
  "baseLOD (zoomThresholds initial_lodConfig) (Fin 50) = 2
   \<and> getRecommendedLOD
       \<lparr> metrics = \<lparr> fps = Fin 30, frameTime = Fin 33, gpuMemoryUsage = Fin 0,
                     renderLatency = Fin 33, lastRenderTime = Fin 33 \<rparr>,
         lodConfig = initial_lodConfig \<rparr> (Fin 50) = 3
   \<and> getRecommendedLOD
       \<lparr> metrics = \<lparr> fps = Fin 70, frameTime = Fin 10, gpuMemoryUsage = Fin 0,
                     renderLatency = Fin 10, lastRenderTime = Fin 10 \<rparr>,
         lodConfig = initial_lodConfig \<rparr> (Fin 50) = 1
   \<and> getRecommendedLOD
       \<lparr> metrics = \<lparr> fps = Fin 60, frameTime = Fin 10, gpuMemoryUsage = Fin 0,
                     renderLatency = Fin 10, lastRenderTime = Fin 10 \<rparr>,
         lodConfig = initial_lodConfig \<rparr> (Fin 50) = 2
   \<and> baseLOD (zoomThresholds initial_lodConfig) (Fin 500) = 3
   \<and> getRecommendedLOD
       \<lparr> metrics = \<lparr> fps = Fin 70, frameTime = Fin 20, gpuMemoryUsage = Fin 0,
                     renderLatency = Fin 20, lastRenderTime = Fin 20 \<rparr>,
         lodConfig = initial_lodConfig \<rparr> (Fin 500) = 2"
proof -
  let ?slow = "\<lparr> metrics = \<lparr> fps = Fin 30, frameTime = Fin 33, gpuMemoryUsage = Fin 0,
                     renderLatency = Fin 33, lastRenderTime = Fin 33 \<rparr>,
         lodConfig = initial_lodConfig \<rparr>"
  let ?fast = "\<lparr> metrics = \<lparr> fps = Fin 70, frameTime = Fin 10, gpuMemoryUsage = Fin 0,
                     renderLatency = Fin 10, lastRenderTime = Fin 10 \<rparr>,
         lodConfig = initial_lodConfig \<rparr>"
  let ?steady = "\<lparr> metrics = \<lparr> fps = Fin 60, frameTime = Fin 10, gpuMemoryUsage = Fin 0,
                     renderLatency = Fin 10, lastRenderTime = Fin 10 \<rparr>,
         lodConfig = initial_lodConfig \<rparr>"
  let ?uneven = "\<lparr> metrics = \<lparr> fps = Fin 70, frameTime = Fin 20, gpuMemoryUsage = Fin 0,
                     renderLatency = Fin 20, lastRenderTime = Fin 20 \<rparr>,
         lodConfig = initial_lodConfig \<rparr>"
  have ne: "qualitySettings (lodConfig ?slow) \<noteq> []" "qualitySettings (lodConfig ?fast) \<noteq> []"
    "qualitySettings (lodConfig ?steady) \<noteq> []" "qualitySettings (lodConfig ?uneven) \<noteq> []"
    by (simp_all add: initial_lodConfig_def)
  have perf: "\<not> isPerformanceAcceptable ?slow" "isPerformanceAcceptable ?fast"
    "isPerformanceAcceptable ?steady" "\<not> isPerformanceAcceptable ?uneven"
    by (simp_all add: isPerformanceAcceptable_def js_le_def)
  show ?thesis
    using getRecommendedLOD_priority_and_clamp [OF ne(1), of "Fin 50"]
      getRecommendedLOD_priority_and_clamp [OF ne(2), of "Fin 50"]
      getRecommendedLOD_priority_and_clamp [OF ne(3), of "Fin 50"]
      getRecommendedLOD_priority_and_clamp [OF ne(4), of "Fin 500"]
      baseLOD_initial tiers_initial perf
    by simp
qed

section \<open>The Mandelbrot escape test\<close>

lemma mandelbrot_loop_origin:
  "mandelbrot_loop \<lparr> real_v = 0, imag_v = 0 \<rparr> n (r * r) \<lparr> real_v = 0, imag_v = 0 \<rparr> i = None"
proof (induction "n - i" arbitrary: i)
  case 0
  then show ?case by (subst mandelbrot_loop.simps) simp
next
  case (Suc k)
  then have less: "i < n" and step: "k = n - (i + 1)" by simp_all
  have z: "ComplexMath_add (ComplexMath_square \<lparr> real_v = 0, imag_v = 0 \<rparr>) \<lparr> real_v = 0, imag_v = 0 \<rparr>
           = \<lparr> real_v = (0::real), imag_v = 0 \<rparr>"
    by (simp add: ComplexMath_add_def ComplexMath_square_def)
  have m: "\<not> ComplexMath_magnitudeSquared \<lparr> real_v = 0, imag_v = 0 \<rparr> > r * r"
    by (simp add: ComplexMath_magnitudeSquared_def)
  show ?case
    using Suc.hyps(1) [OF step] less z m
    by (subst mandelbrot_loop.simps) simp
qed

text \<open>
  From \<open>c = 2\<close> the iterates are \<open>0, 2, 6\<close>: the test \<open>|z|\<^sup>2 > 4\<close> is false for \<open>0\<close> and for
  \<open>4\<close> and true for \<open>36\<close>, at the iteration counter 2.
\<close>

lemma mandelbrot_loop_two:
  assumes "3 \<le> n"
  shows "mandelbrot_loop \<lparr> real_v = 2, imag_v = 0 \<rparr> n (2 * 2) \<lparr> real_v = 0, imag_v = 0 \<rparr> 0
         = Some (2, 36)"
proof -
  let ?c = "\<lparr> real_v = 2, imag_v = (0::real) \<rparr>"
  have s2: "mandelbrot_loop ?c n (2 * 2) \<lparr> real_v = 6, imag_v = 0 \<rparr> (Suc (Suc 0)) = Some (2, 36)"
    using assms by (subst mandelbrot_loop.simps) (simp add: ComplexMath_magnitudeSquared_def)
  have s1: "mandelbrot_loop ?c n (2 * 2) \<lparr> real_v = 2, imag_v = 0 \<rparr> (Suc 0) = Some (2, 36)"
    using assms s2
    by (subst mandelbrot_loop.simps)
       (simp add: ComplexMath_magnitudeSquared_def ComplexMath_add_def ComplexMath_square_def)
  show ?thesis
    using assms s1
    by (subst mandelbrot_loop.simps)
       (simp add: ComplexMath_magnitudeSquared_def ComplexMath_add_def ComplexMath_square_def)
qed

lemma log2_powers: "log 2 (4::real) = 2" "log 2 (16::real) = 4" "log 2 (256::real) = 8"
proof -
  have "log 2 (4::real) = log 2 (2 ^ 2)" by simp
  also have "\<dots> = 2" by (subst log_nat_power) simp_all
  finally show "log 2 (4::real) = 2" .
  have "log 2 (16::real) = log 2 (2 ^ 4)" by simp
  also have "\<dots> = 4" by (subst log_nat_power) simp_all
  finally show "log 2 (16::real) = 4" .
  have "log 2 (256::real) = log 2 (2 ^ 8)" by simp
  also have "\<dots> = 8" by (subst log_nat_power) simp_all
  finally show "log 2 (256::real) = 8" .
qed

lemma smoothIteration_2_36: "1 < smoothIteration 2 36 \<and> smoothIteration 2 36 < 2"
proof -
  have a: "log 2 16 < log 2 (36::real)" by (subst log_less_cancel_iff) simp_all
  have b: "log 2 (36::real) < log 2 256" by (subst log_less_cancel_iff) simp_all
  have lo: "2 < log 2 36 * (1 / 2)" and hi: "log 2 36 * (1 / 2) < (4::real)"
    using a b log2_powers by simp_all
  have "log 2 2 < log 2 (log 2 36 * (1 / 2))"
    using lo by (subst log_less_cancel_iff) simp_all
  then have c: "1 < log 2 (log 2 36 * (1 / 2))" by simp
  have "log 2 (log 2 36 * (1 / 2)) < log 2 4"
    using lo hi by (subst log_less_cancel_iff) simp_all
  then have d: "log 2 (log 2 36 * (1 / 2)) < 2"
    using log2_powers by simp
  show ?thesis using c d by (simp add: smoothIteration_def)
qed

text \<open>
  Claim C3, as stated, fails in its second half: with 50 iterations and escape radius 2
  the point \<open>c = (2, 0)\<close> leaves the loop at the iteration counter 2, not 0 or 1 (its
  magnitude equals the radius and the test is strict), and the value returned is
  neither 0 nor 1.
\<close>

theorem mandelbrot_two_escapes_late_counterexample:
  "mandelbrot_loop \<lparr> real_v = 2, imag_v = 0 \<rparr> 50 (2 * 2) \<lparr> real_v = 0, imag_v = 0 \<rparr> 0
     = Some (2, 36)
   \<and> FractalCompute_mandelbrot \<lparr> real_v = 2, imag_v = 0 \<rparr> 50 2 \<noteq> 0
   \<and> FractalCompute_mandelbrot \<lparr> real_v = 2, imag_v = 0 \<rparr> 50 2 \<noteq> 1"
proof -
  have l: "mandelbrot_loop \<lparr> real_v = 2, imag_v = 0 \<rparr> 50 (2 * 2) \<lparr> real_v = 0, imag_v = 0 \<rparr> 0
     = Some (2, 36)"
    by (rule mandelbrot_loop_two) simp
  then have "FractalCompute_mandelbrot \<lparr> real_v = 2, imag_v = 0 \<rparr> 50 2 = smoothIteration 2 36"
    by (simp add: FractalCompute_mandelbrot_def)
  then show ?thesis using l smoothIteration_2_36 by simp
qed

text \<open>
  Claim C3, amended. For every iteration limit (50, 100, 500 and 1000 among them) and
  every escape radius the point \<open>c = (0, 0)\<close> never escapes and the computation returns
  exactly the limit. With escape radius 2 and a limit of at least 3 the point
  \<open>c = (2, 0)\<close> escapes at iteration 2, where \<open>|z|\<^sup>2 = 36\<close>, and the smooth value
  returned, \<open>3 - log\<^sub>2 (log\<^sub>2 36 / 2)\<close>, lies strictly between 1 and 2.
\<close>

theorem mandelbrot_origin_and_two:
  "FractalCompute_mandelbrot \<lparr> real_v = 0, imag_v = 0 \<rparr> n r = real n
   \<and> (3 \<le> n \<longrightarrow>
        mandelbrot_loop \<lparr> real_v = 2, imag_v = 0 \<rparr> n (2 * 2) \<lparr> real_v = 0, imag_v = 0 \<rparr> 0
          = Some (2, 36)
        \<and> FractalCompute_mandelbrot \<lparr> real_v = 2, imag_v = 0 \<rparr> n 2 = smoothIteration 2 36
        \<and> 1 < FractalCompute_mandelbrot \<lparr> real_v = 2, imag_v = 0 \<rparr> n 2
        \<and> FractalCompute_mandelbrot \<lparr> real_v = 2, imag_v = 0 \<rparr> n 2 < 2)"
proof -
  have origin: "FractalCompute_mandelbrot \<lparr> real_v = 0, imag_v = 0 \<rparr> n r = real n"
    by (simp add: FractalCompute_mandelbrot_def mandelbrot_loop_origin)
  have two: "mandelbrot_loop \<lparr> real_v = 2, imag_v = 0 \<rparr> n (2 * 2) \<lparr> real_v = 0, imag_v = 0 \<rparr> 0
          = Some (2, 36)
        \<and> FractalCompute_mandelbrot \<lparr> real_v = 2, imag_v = 0 \<rparr> n 2 = smoothIteration 2 36
        \<and> 1 < FractalCompute_mandelbrot \<lparr> real_v = 2, imag_v = 0 \<rparr> n 2
        \<and> FractalCompute_mandelbrot \<lparr> real_v = 2, imag_v = 0 \<rparr> n 2 < 2" if "3 \<le> n"
  proof -
    have l: "mandelbrot_loop \<lparr> real_v = 2, imag_v = 0 \<rparr> n (2 * 2) \<lparr> real_v = 0, imag_v = 0 \<rparr> 0
          = Some (2, 36)"
      using that by (rule mandelbrot_loop_two)
    then have "FractalCompute_mandelbrot \<lparr> real_v = 2, imag_v = 0 \<rparr> n 2 = smoothIteration 2 36"
      by (simp add: FractalCompute_mandelbrot_def)
    then show ?thesis using l smoothIteration_2_36 by simp
  qed
  show ?thesis using origin two by blast
qed

theorem mandelbrot_origin_and_two_witness:
  "FractalCompute_mandelbrot \<lparr> real_v = 0, imag_v = 0 \<rparr> 50 2 = 50
   \<and> mandelbrot_loop \<lparr> real_v = 2, imag_v = 0 \<rparr> 50 (2 * 2) \<lparr> real_v = 0, imag_v = 0 \<rparr> 0
       = Some (2, 36)
   \<and> 1 < FractalCompute_mandelbrot \<lparr> real_v = 2, imag_v = 0 \<rparr> 50 2
   \<and> FractalCompute_mandelbrot \<lparr> real_v = 2, imag_v = 0 \<rparr> 50 2 < 2"
  using mandelbrot_origin_and_two [of 50 2] by simp

section \<open>The Julia constant when none is set\<close>

lemma julia_loop_far:
  "julia_loop c 50 (2 * 2) \<lparr> real_v = 16, imag_v = 0 \<rparr> 0 = Some (0, 256)"
  by (subst julia_loop.simps) (simp add: ComplexMath_magnitudeSquared_def)

lemma smoothIteration_0_256: "smoothIteration 0 256 = - 1"
  by (simp add: smoothIteration_def log2_powers)

text \<open>
  Claim C6. The renderer uploads the default constant \<open>(-0.7269, 0.1889)\<close> when the
  parameters of a Julia fractal carry none, and the registry's formula falls back to it,
  but the worker does not use it: it stores 0 for the sample. On a 2 by 2 viewport with zoom 1 centred at \<open>(16.5, 0.5)\<close> the pixel
  \<open>(0, 0)\<close> is the point \<open>(16, 0)\<close>; with 50 iterations and escape radius 2 the worker
  gives 0 without a constant and \<open>-1\<close> with the default constant set explicitly.
\<close>

theorem worker_ignores_default_julia_constant:
  "computeFractalRegion_coord
     \<lparr> center_vp = \<lparr> real_v = 33 / 2, imag_v = 1 / 2 \<rparr>, zoom_vp = 1, width = 2, height = 2,
       aspectRatio = 1 \<rparr> 0 0 = \<lparr> real_v = 16, imag_v = 0 \<rparr>
   \<and> computeFractalRegion_sample ''julia'' None 50 2 \<lparr> real_v = 16, imag_v = 0 \<rparr> = Fin 0
   \<and> computeFractalRegion_sample ''julia''
       (Some \<lparr> real_v = - 7269 / 10000, imag_v = 1889 / 10000 \<rparr>) 50 2
       \<lparr> real_v = 16, imag_v = 0 \<rparr> = Fin (- 1)
   \<and> updateUniforms_juliaConstant ''julia'' None
       = \<lparr> real_v = - 7269 / 10000, imag_v = 1889 / 10000 \<rparr>
   \<and> JuliaFractal_formula z None
       = JuliaFractal_formula z (Some \<lparr> real_v = - 7269 / 10000, imag_v = 1889 / 10000 \<rparr>)"
proof -
  have coord: "computeFractalRegion_coord
     \<lparr> center_vp = \<lparr> real_v = 33 / 2, imag_v = 1 / 2 \<rparr>, zoom_vp = 1, width = 2, height = 2,
       aspectRatio = 1 \<rparr> 0 0 = \<lparr> real_v = 16, imag_v = 0 \<rparr>"
    by (simp add: computeFractalRegion_coord_def)
  have unset: "computeFractalRegion_sample ''julia'' None 50 2 \<lparr> real_v = 16, imag_v = 0 \<rparr> = Fin 0"
    by (simp add: computeFractalRegion_sample_def)
  have "FractalCompute_julia \<lparr> real_v = 16, imag_v = 0 \<rparr>
          \<lparr> real_v = - 7269 / 10000, imag_v = 1889 / 10000 \<rparr> 50 2 = - 1"
    using julia_loop_far [of "\<lparr> real_v = - 7269 / 10000, imag_v = 1889 / 10000 \<rparr>"]
    by (simp add: FractalCompute_julia_def smoothIteration_0_256)
  then have set: "computeFractalRegion_sample ''julia''
       (Some \<lparr> real_v = - 7269 / 10000, imag_v = 1889 / 10000 \<rparr>) 50 2
       \<lparr> real_v = 16, imag_v = 0 \<rparr> = Fin (- 1)"
    by (simp add: computeFractalRegion_sample_def)
  have gpu: "updateUniforms_juliaConstant ''julia'' None
       = \<lparr> real_v = - 7269 / 10000, imag_v = 1889 / 10000 \<rparr>"
    by (simp add: updateUniforms_juliaConstant_def)
  have reg: "JuliaFractal_formula z None
       = JuliaFractal_formula z (Some \<lparr> real_v = - 7269 / 10000, imag_v = 1889 / 10000 \<rparr>)"
    by (simp add: JuliaFractal_formula_def)
  show ?thesis using coord unset set gpu reg by blast
qed

section \<open>The Lyapunov exponent of the worker\<close>

lemma lyapunov_loop_first_round:
  "lyapunov_loop a b n 0 (1 / 2) 0 = (if n = 0 then NaN else Fin (- 10))"
  by (subst lyapunov_loop.simps) (simp add: js_div_def)

text \<open>
  Claim C5. The worker's \<^verbatim>\<open>FractalCompute.lyapunov\<close> never returns a mean: outside the
  parameter range it returns 0 (not the sentinel \<open>-10\<close>), and inside it the first
  derivative, \<open>r (1 - 2 x)\<close> at \<open>x = 0.5\<close>, is 0, below the \<open>1e-10\<close> guard, so the first round of the
  loop returns \<open>-10\<close> for every iteration limit but 0. With 50 iterations the
  parameters \<open>(2, 2)\<close> give \<open>-10\<close> and \<open>(5, 2)\<close> give 0.
\<close>

theorem lyapunov_worker_never_averages:
  "FractalCompute_lyapunov coord n =
     (if real_v coord \<le> 0 \<or> real_v coord \<ge> 4 \<or> imag_v coord \<le> 0 \<or> imag_v coord \<ge> 4
      then Fin 0
      else if n = 0 then NaN else Fin (- 10))
   \<and> FractalCompute_lyapunov \<lparr> real_v = 2, imag_v = 2 \<rparr> 50 = Fin (- 10)
   \<and> FractalCompute_lyapunov \<lparr> real_v = 5, imag_v = 2 \<rparr> 50 = Fin 0"
  by (simp add: FractalCompute_lyapunov_def lyapunov_loop_first_round)

section \<open>Palette gradients: length and first entry\<close>

lemma sint32_small:
  assumes "0 \<le> k" and "k < 2 ^ 31"
  shows "sint (word_of_int k :: 32 word) = k"
proof -
  have "sint (word_of_int k :: 32 word) = signed_take_bit 31 k"
    by (simp add: sint_sbintrunc')
  also have "\<dots> = k"
    using assms by (intro signed_take_bit_int_eq_self) simp_all
  finally show ?thesis .
qed

lemma shl32_small:
  assumes "0 \<le> x" and "x < 256"
  shows "shl32 x 16 = x * 65536" and "shl32 x 8 = x * 256"
proof -
  have "push_bit 16 (word_of_int x :: 32 word) = word_of_int (x * 65536)"
    by (simp add: push_bit_eq_mult)
  then have "shl32 x 16 = sint (word_of_int (x * 65536) :: 32 word)"
    unfolding shl32_def by (rule arg_cong)
  also have "\<dots> = x * 65536"
    using assms by (intro sint32_small) simp_all
  finally show "shl32 x 16 = x * 65536" .
  have "push_bit 8 (word_of_int x :: 32 word) = word_of_int (x * 256)"
    by (simp add: push_bit_eq_mult)
  then have "shl32 x 8 = sint (word_of_int (x * 256) :: 32 word)"
    unfolding shl32_def by (rule arg_cong)
  also have "\<dots> = x * 256"
    using assms by (intro sint32_small) simp_all
  finally show "shl32 x 8 = x * 256" .
qed

lemma shl32_one: "shl32 1 24 = 16777216"
  by (simp add: shl32_def)

lemma rgb_sum:
  assumes "0 \<le> r" "r < 256" "0 \<le> g" "g < 256"
  shows "shl32 1 24 + shl32 r 16 + shl32 g 8 + b = 16777216 + r * 65536 + g * 256 + b"
  using shl32_small [OF assms(1,2)] shl32_small [OF assms(3,4)] shl32_one by simp

lemma hex_digits_step:
  assumes "0 < n" and "d < 16"
  shows "hex_digits (16 * n + d) = hex_digits n @ [hex_char d]"
  using assms by (subst hex_digits.simps) simp

lemma hex_digits_one: "hex_digits 1 = [hex_char 1]"
  by (subst hex_digits.simps) simp

lemma hex_digits_seven:
  assumes "a < 16" "b < 16" "c < 16" "d < 16" "e < 16" "f < 16"
  shows "hex_digits (16777216 + 1048576 * a + 65536 * b + 4096 * c + 256 * d + 16 * e + f)
         = [hex_char 1, hex_char a, hex_char b, hex_char c, hex_char d, hex_char e, hex_char f]"
proof -
  define n1 where "n1 = 16 * 1 + a"
  define n2 where "n2 = 16 * n1 + b"
  define n3 where "n3 = 16 * n2 + c"
  define n4 where "n4 = 16 * n3 + d"
  define n5 where "n5 = 16 * n4 + e"
  have pos: "0 < n1" "0 < n2" "0 < n3" "0 < n4" "0 < n5"
    by (simp_all add: n1_def n2_def n3_def n4_def n5_def)
  have "hex_digits n1 = [hex_char 1, hex_char a]"
    unfolding n1_def using hex_digits_step [of 1 a] assms(1) hex_digits_one by simp
  then have "hex_digits n2 = [hex_char 1, hex_char a, hex_char b]"
    unfolding n2_def using hex_digits_step [OF pos(1) assms(2)] by simp
  then have "hex_digits n3 = [hex_char 1, hex_char a, hex_char b, hex_char c]"
    unfolding n3_def using hex_digits_step [OF pos(2) assms(3)] by simp
  then have "hex_digits n4 = [hex_char 1, hex_char a, hex_char b, hex_char c, hex_char d]"
    unfolding n4_def using hex_digits_step [OF pos(3) assms(4)] by simp
  then have "hex_digits n5 = [hex_char 1, hex_char a, hex_char b, hex_char c, hex_char d, hex_char e]"
    unfolding n5_def using hex_digits_step [OF pos(4) assms(5)] by simp
  then have "hex_digits (16 * n5 + f)
      = [hex_char 1, hex_char a, hex_char b, hex_char c, hex_char d, hex_char e, hex_char f]"
    using hex_digits_step [OF pos(5) assms(6)] by simp
  moreover have "16 * n5 + f
      = 16777216 + 1048576 * a + 65536 * b + 4096 * c + 256 * d + 16 * e + f"
    by (simp add: n1_def n2_def n3_def n4_def n5_def)
  ultimately show ?thesis by simp
qed

lemma rgbToHex_digits:
  assumes "a < 16" "b < 16" "c < 16" "d < 16" "e < 16" "f < 16"
  shows "rgbToHex (int (16 * a + b)) (int (16 * c + d)) (int (16 * e + f))
         = CHR ''#'' # map hex_char [a, b, c, d, e, f]"
proof -
  have "shl32 1 24 + shl32 (int (16 * a + b)) 16 + shl32 (int (16 * c + d)) 8 + int (16 * e + f)
        = 16777216 + int (16 * a + b) * 65536 + int (16 * c + d) * 256 + int (16 * e + f)"
    using assms by (intro rgb_sum) simp_all
  also have "\<dots> = int (16777216 + 1048576 * a + 65536 * b + 4096 * c + 256 * d + 16 * e + f)"
    by simp
  finally have "toString16 (shl32 1 24 + shl32 (int (16 * a + b)) 16
                  + shl32 (int (16 * c + d)) 8 + int (16 * e + f))
        = hex_digits (16777216 + 1048576 * a + 65536 * b + 4096 * c + 256 * d + 16 * e + f)"
    unfolding toString16_def by (simp only: nat_int) simp
  then show ?thesis
    unfolding rgbToHex_def using hex_digits_seven [OF assms] by simp
qed


lemma hex_digit_value_less: "hex_digit_value c = Some v \<Longrightarrow> v < 16"
  by (auto simp: hex_digit_value_def Let_def split: if_splits)

lemma hex_char_value: "hex_digit_value c = Some v \<Longrightarrow> hex_char v = lower_hex c"
proof -
  assume a: "hex_digit_value c = Some v"
  have cc: "char_of (of_char c :: nat) = c" by (rule char_of_char)
  consider (digit) "48 \<le> (of_char c :: nat)" "(of_char c :: nat) \<le> 57" "v = of_char c - 48"
    | (lower) "97 \<le> (of_char c :: nat)" "(of_char c :: nat) \<le> 102" "v = of_char c - 87"
    | (upper) "65 \<le> (of_char c :: nat)" "(of_char c :: nat) \<le> 70" "v = of_char c - 55"
    using a by (auto simp: hex_digit_value_def Let_def split: if_splits)
  then show ?thesis
  proof cases
    case digit
    then have "48 + v = of_char c" "v < 10" by simp_all
    then show ?thesis using cc digit by (simp add: hex_char_def lower_hex_def)
  next
    case lower
    then have "87 + v = of_char c" "\<not> v < 10" by simp_all
    then show ?thesis using cc lower by (simp add: hex_char_def lower_hex_def)
  next
    case upper
    then have "87 + v = of_char c + 32" "\<not> v < 10" by simp_all
    then show ?thesis using upper by (simp add: hex_char_def lower_hex_def)
  qed
qed

lemma parseInt16_two:
  assumes "hex_digit_value c1 = Some v1" and "hex_digit_value c2 = Some v2"
  shows "parseInt16 [c1, c2] = int (16 * v1 + v2)"
  using assms by (simp add: parseInt16_def)

lemma list_of_length_six:
  assumes "length xs = 6"
  obtains a b c d e f where "xs = [a, b, c, d, e, f]"
proof -
  from assms obtain a b c d e f where "xs = [a, b, c, d, e, f]"
    by (auto simp: numeral_eq_Suc length_Suc_conv)
  then show ?thesis by (rule that)
qed

lemma rgbToHex_hexToRgb:
  assumes "hexToRgb s = Some (r, g, b)"
  shows "rgbToHex r g b = CHR ''#'' # map lower_hex (hex_body s)"
proof -
  from assms have len: "length (hex_body s) = 6"
    and valid: "list_all (\<lambda>c. hex_digit_value c \<noteq> None) (hex_body s)"
    and rgb: "r = parseInt16 (take 2 (hex_body s))"
             "g = parseInt16 (take 2 (drop 2 (hex_body s)))"
             "b = parseInt16 (drop 4 (hex_body s))"
    by (auto simp: hexToRgb_def Let_def split: if_splits)
  from len obtain c1 c2 c3 c4 c5 c6 where body: "hex_body s = [c1, c2, c3, c4, c5, c6]"
    by (rule list_of_length_six)
  from valid body obtain v1 v2 v3 v4 v5 v6 where
    v: "hex_digit_value c1 = Some v1" "hex_digit_value c2 = Some v2"
       "hex_digit_value c3 = Some v3" "hex_digit_value c4 = Some v4"
       "hex_digit_value c5 = Some v5" "hex_digit_value c6 = Some v6"
    by auto
  have r: "r = int (16 * v1 + v2)" and g: "g = int (16 * v3 + v4)" and b: "b = int (16 * v5 + v6)"
    using rgb body v by (simp_all add: parseInt16_two)
  have "rgbToHex r g b = CHR ''#'' # map hex_char [v1, v2, v3, v4, v5, v6]"
    unfolding r g b by (rule rgbToHex_digits) (use v in \<open>auto dest: hex_digit_value_less\<close>)
  also have "\<dots> = CHR ''#'' # map lower_hex (hex_body s)"
    using v body by (simp add: hex_char_value)
  finally show ?thesis .
qed

lemma gradient_loop_map_filter:
  "gradient_loop colors steps i acc
   = acc @ List.map_filter (gradient_entry colors steps) [i..<steps]"
proof (induction colors steps i acc rule: gradient_loop.induct)
  case (1 colors steps i gradient)
  show ?case
  proof (cases "i < steps")
    case True
    then have upt: "[i..<steps] = i # [i + 1..<steps]"
      by (simp add: upt_conv_Cons)
    show ?thesis
      using True "1.IH" [OF True]
      by (subst gradient_loop.simps)
         (simp add: upt map_filter_simps split: option.splits)
  next
    case False
    then show ?thesis
      by (subst gradient_loop.simps) (simp add: map_filter_simps)
  qed
qed

lemma map_filter_total:
  assumes "\<forall>x \<in> set xs. f x \<noteq> None"
  shows "List.map_filter f xs = map (\<lambda>x. the (f x)) xs"
  using assms by (induction xs) (auto simp: map_filter_simps)

lemma hexToRgb_at_parses:
  assumes "\<forall>c \<in> set colors. hexToRgb c \<noteq> None" and "0 \<le> k" and "k < int (length colors)"
  shows "\<exists>rgb. hexToRgb_at colors k = Some rgb"
proof -
  have "colors ! nat k \<in> set colors" using assms(2,3) by simp
  then show ?thesis using assms by (auto simp: hexToRgb_at_def)
qed

lemma gradient_entry_pushes:
  assumes "2 \<le> length colors" and "\<forall>c \<in> set colors. hexToRgb c \<noteq> None" and "i < steps"
  shows "\<exists>h. gradient_entry colors steps i = Some h"
proof -
  define segmentSize where "segmentSize = real steps / (real (length colors) - 1)"
  define k where "k = min \<lfloor>real i / segmentSize\<rfloor> (int (length colors) - 2)"
  have "0 < segmentSize"
    using assms(1,3) by (simp add: segmentSize_def)
  then have "0 \<le> real i / segmentSize" by simp
  then have "0 \<le> \<lfloor>real i / segmentSize\<rfloor>" by simp
  then have k0: "0 \<le> k" and k1: "k + 1 < int (length colors)"
    using assms(1) by (simp_all add: k_def)
  obtain c1 where c1: "hexToRgb_at colors k = Some c1"
    using hexToRgb_at_parses [OF assms(2) k0] k1 by auto
  obtain c2 where c2: "hexToRgb_at colors (k + 1) = Some c2"
    using hexToRgb_at_parses [OF assms(2), of "k + 1"] k0 k1 by auto
  show ?thesis
    using c1 c2
    by (simp add: gradient_entry_def Let_def segmentSize_def [symmetric] k_def [symmetric]
        split: prod.splits)
qed

lemma Math_round_of_int: "Math_round (of_int r) = r"
  by (simp add: Math_round_def)

lemma gradient_entry_first:
  assumes "2 \<le> length colors" and "\<forall>c \<in> set colors. hexToRgb c \<noteq> None"
    and "hexToRgb (colors ! 0) = Some (r, g, b)"
  shows "gradient_entry colors steps 0 = Some (rgbToHex r g b)"
proof -
  have c1: "hexToRgb_at colors 0 = Some (r, g, b)"
    using assms(1,3) by (cases colors) (simp_all add: hexToRgb_at_def)
  obtain c2 where c2: "hexToRgb_at colors 1 = Some c2"
    using hexToRgb_at_parses [OF assms(2), of 1] assms(1) by auto
  obtain r2 g2 b2 where c2': "c2 = (r2, g2, b2)" by (cases c2) auto
  have m: "min 0 (int (length colors) - 2) = 0" using assms(1) by simp
  show ?thesis
    using c1 c2
    by (simp add: gradient_entry_def Let_def js_rem_def m c2' interpolateRgb_def
        Math_round_of_int)
qed
lemma generateSmoothGradient_as_map:
  assumes len: "2 \<le> length colors" and parse: "\<forall>c \<in> set colors. hexToRgb c \<noteq> None"
  shows "generateSmoothGradient colors steps
         = map (\<lambda>i. the (gradient_entry colors steps i)) [0..<steps]"
proof -
  have total: "\<forall>i \<in> set [0..<steps]. gradient_entry colors steps i \<noteq> None"
    using gradient_entry_pushes [OF len parse] by auto
  show ?thesis
    using len
    by (simp add: generateSmoothGradient_def gradient_loop_map_filter
        map_filter_total [OF total])
qed

lemma generateSmoothGradient_first:
  assumes len: "2 \<le> length colors" and parse: "\<forall>c \<in> set colors. hexToRgb c \<noteq> None"
    and steps: "0 < steps"
  shows "generateSmoothGradient colors steps ! 0
         = CHR ''#'' # map lower_hex (hex_body (colors ! 0))"
proof -
  have "colors ! 0 \<in> set colors" using len by (cases colors) auto
  then obtain r g b where rgb: "hexToRgb (colors ! 0) = Some (r, g, b)"
    using parse by (cases "hexToRgb (colors ! 0)") auto
  have "generateSmoothGradient colors steps ! 0 = the (gradient_entry colors steps 0)"
    using steps by (simp add: generateSmoothGradient_as_map [OF len parse])
  also have "\<dots> = rgbToHex r g b"
    by (simp add: gradient_entry_first [OF len parse rgb])
  also have "\<dots> = CHR ''#'' # map lower_hex (hex_body (colors ! 0))"
    by (rule rgbToHex_hexToRgb [OF rgb])
  finally show ?thesis .
qed

text \<open>
  Claim C8, as stated, fails in one point: the first entry is not always \<^verbatim>\<open>colors[0]\<close>.
  The pattern of \<^verbatim>\<open>hexToRgb\<close> accepts upper-case digits (and a missing \<open>#\<close>), while
  \<^verbatim>\<open>rgbToHex\<close> writes \<open>#\<close> and lower-case digits: both colours of
  \<^verbatim>\<open>['#FF0000', '#00FF00']\<close> parse, and the gradient of 2 steps starts with \<open>#ff0000\<close>.
\<close>

theorem gradient_first_entry_lower_case_counterexample:
  "hexToRgb ''#FF0000'' \<noteq> None \<and> hexToRgb ''#00FF00'' \<noteq> None
   \<and> generateSmoothGradient [''#FF0000'', ''#00FF00''] 2 ! 0 = ''#ff0000''
   \<and> generateSmoothGradient [''#FF0000'', ''#00FF00''] 2 ! 0 \<noteq> [''#FF0000'', ''#00FF00''] ! 0"
proof -
  have parse: "\<forall>c \<in> set [''#FF0000'', ''#00FF00'']. hexToRgb c \<noteq> None"
    by (simp add: hexToRgb_def hex_body_def hex_digit_value_def)
  have "generateSmoothGradient [''#FF0000'', ''#00FF00''] 2 ! 0
        = CHR ''#'' # map lower_hex (hex_body ([''#FF0000'', ''#00FF00''] ! 0))"
    using parse by (intro generateSmoothGradient_first) simp_all
  also have "\<dots> = ''#ff0000''"
    by code_simp
  finally show ?thesis using parse by simp
qed

text \<open>
  Claim C8, amended. For every list of two or more colours that all parse and every
  number of steps \<open>N\<close>, the gradient has exactly \<open>N\<close> entries and, when \<open>N \<ge> 1\<close>, its first
  entry is \<^verbatim>\<open>colors[0]\<close> written as \<open>#\<close> and six lower-case digits, which is \<^verbatim>\<open>colors[0]\<close>
  itself when that is how it is written. A list of fewer than two colours (one colour,
  or none) is returned unchanged.
\<close>

theorem generateSmoothGradient_length_and_first:
  "(2 \<le> length colors \<and> (\<forall>c \<in> set colors. hexToRgb c \<noteq> None)
      \<longrightarrow> length (generateSmoothGradient colors steps) = steps
        \<and> (0 < steps \<longrightarrow>
             generateSmoothGradient colors steps ! 0
               = CHR ''#'' # map lower_hex (hex_body (colors ! 0))))
   \<and> (2 \<le> length colors \<and> (\<forall>c \<in> set colors. hexToRgb c \<noteq> None) \<and> 0 < steps
        \<and> colors ! 0 = CHR ''#'' # ds \<and> map lower_hex ds = ds
      \<longrightarrow> generateSmoothGradient colors steps ! 0 = colors ! 0)
   \<and> (length colors < 2 \<longrightarrow> generateSmoothGradient colors steps = colors)"
proof -
  have short: "generateSmoothGradient colors steps = colors" if "length colors < 2"
    using that by (simp add: generateSmoothGradient_def)
  have n: "length (generateSmoothGradient colors steps) = steps"
    if "2 \<le> length colors" "\<forall>c \<in> set colors. hexToRgb c \<noteq> None"
    by (simp add: generateSmoothGradient_as_map [OF that])
  have first: "generateSmoothGradient colors steps ! 0
               = CHR ''#'' # map lower_hex (hex_body (colors ! 0))"
    if "2 \<le> length colors" "\<forall>c \<in> set colors. hexToRgb c \<noteq> None" "0 < steps"
    using that by (rule generateSmoothGradient_first)
  have lower: "generateSmoothGradient colors steps ! 0 = colors ! 0"
    if "2 \<le> length colors" "\<forall>c \<in> set colors. hexToRgb c \<noteq> None" "0 < steps"
       "colors ! 0 = CHR ''#'' # ds" "map lower_hex ds = ds"
    using first [OF that(1,2,3)] that(4,5) by (simp add: hex_body_def)
  show ?thesis using short n first lower by blast
qed

text \<open>
  The cases of the test suite: three colours and 10 steps give 10 entries starting with
  \<open>#ff0000\<close>; one colour is returned as it is; so is the empty list.
\<close>

theorem generateSmoothGradient_length_and_first_witness:
  "length (generateSmoothGradient [''#ff0000'', ''#00ff00'', ''#0000ff''] 10) = 10
   \<and> generateSmoothGradient [''#ff0000'', ''#00ff00'', ''#0000ff''] 10 ! 0 = ''#ff0000''
   \<and> generateSmoothGradient [''#ff0000''] 5 = [''#ff0000'']
   \<and> generateSmoothGradient [] 5 = []"
proof -
  have parse: "\<forall>c \<in> set [''#ff0000'', ''#00ff00'', ''#0000ff'']. hexToRgb c \<noteq> None"
    by (simp add: hexToRgb_def hex_body_def hex_digit_value_def)
  have low: "map lower_hex ''ff0000'' = ''ff0000''"
    by (simp add: lower_hex_def)
  show ?thesis
    using generateSmoothGradient_length_and_first
            [of "[''#ff0000'', ''#00ff00'', ''#0000ff'']" 10 "''ff0000''"]
      generateSmoothGradient_length_and_first [of "[''#ff0000'']" 5 "[]"]
      generateSmoothGradient_length_and_first [of "[]" 5 "[]"] parse low
    by (simp add: hex_body_def)
qed

end
